theory Spec2Isabelle
  imports Complex_Main "HOL-Library.Multiset" "HOL-Library.Word"
begin

section \<open>JavaScript values used by the handlers\<close>

text \<open>
  A string is the list of its UTF-16 code units; \<open>lit\<close> gives the string of a literal of
  the source, which is ASCII text. The characters the handlers name are given by their
  code units.
\<close>

type_synonym codeUnit = "16 word"

type_synonym jsstring = "codeUnit list"

definition lit :: "string \<Rightarrow> jsstring" where
  "lit s = map of_char s"

abbreviation chBlank :: codeUnit where "chBlank \<equiv> 0x20"
abbreviation chAmpersand :: codeUnit where "chAmpersand \<equiv> 0x26"
abbreviation chApostrophe :: codeUnit where "chApostrophe \<equiv> 0x27"
abbreviation chPlus :: codeUnit where "chPlus \<equiv> 0x2B"
abbreviation chComma :: codeUnit where "chComma \<equiv> 0x2C"
abbreviation chMinus :: codeUnit where "chMinus \<equiv> 0x2D"
abbreviation chSlash :: codeUnit where "chSlash \<equiv> 0x2F"
abbreviation chZero :: codeUnit where "chZero \<equiv> 0x30"
abbreviation chUnderscore :: codeUnit where "chUnderscore \<equiv> 0x5F"

text \<open>
  A JavaScript number is \<open>NaN\<close>, an infinity, or a finite double, kept as the rational it
  denotes. \<open>-0\<close> is not kept apart from \<open>0\<close>: the handlers replace both by \<open>0\<close> before use.
\<close>

datatype jsnum = NaN | PosInf | NegInf | Fin rat

definition orZero :: "jsnum \<Rightarrow> jsnum" where
  "orZero x = (if x = NaN \<or> x = Fin 0 then Fin 0 else x)"

fun numGe :: "jsnum \<Rightarrow> rat \<Rightarrow> bool" where
  "numGe NaN b = False"
| "numGe PosInf b = True"
| "numGe NegInf b = False"
| "numGe (Fin a) b = (b \<le> a)"

text \<open>
  A field of a request body is any value \<open>express.json()\<close> can produce, or is missing
  (\<open>JUndefined\<close>). An object is the list of its properties in the order of the text; a
  name that occurs twice keeps its last value. \<open>truthyJ\<close> is the test a condition applies.
\<close>

datatype json =
    JUndefined
  | JNull
  | JBool bool
  | JNum jsnum
  | JStr jsstring
  | JArr "json list"
  | JObj "(jsstring \<times> json) list"

definition truthyJ :: "json \<Rightarrow> bool" where
  "truthyJ v =
     (case v of
        JUndefined \<Rightarrow> False
      | JNull \<Rightarrow> False
      | JBool b \<Rightarrow> b
      | JNum x \<Rightarrow> x \<noteq> NaN \<and> x \<noteq> Fin 0
      | JStr s \<Rightarrow> s \<noteq> []
      | JArr xs \<Rightarrow> True
      | JObj kvs \<Rightarrow> True)"

definition property :: "(jsstring \<times> json) list \<Rightarrow> jsstring \<Rightarrow> json" where
  "property kvs name = (case map_of (rev kvs) name of None \<Rightarrow> JUndefined | Some v \<Rightarrow> v)"

text \<open>
  The engine and the libraries supply what the repository does not contain: the IEEE-754
  product of two numbers, \<open>Number::toString\<close>, the Unicode case mappings of a string that
  has a code unit above \<open>U+00FF\<close>, \<open>bcrypt.compare\<close> on two strings (\<open>None\<close> when it
  rejects, as for a stored hash with an unknown salt version), the values \<open>Math.random()\<close>
  returns (numbered in the order of the calls), the time zones \<open>toLocaleString\<close> accepts,
  and whether the mail transport delivers to an address. The database is taken to be
  reachable and the signing secret to be configured.
\<close>

record runtime =
  numMul :: "jsnum \<Rightarrow> jsnum \<Rightarrow> jsnum"
  numberToString :: "jsnum \<Rightarrow> jsstring"
  lowerCaseWide :: "jsstring \<Rightarrow> jsstring"
  upperCaseWide :: "jsstring \<Rightarrow> jsstring"
  bcryptCompare :: "jsstring \<Rightarrow> jsstring \<Rightarrow> bool option"
  mathRandom :: "nat \<Rightarrow> rat"
  knownTimeZone :: "jsstring \<Rightarrow> bool"
  sendMail :: "jsstring \<Rightarrow> bool"

text \<open>
  White space is what \<open>String.prototype.trim\<close>, \<open>parseInt\<close> and the pattern \<open>\s\<close> take
  for it: the ECMAScript \<open>WhiteSpace\<close> and \<open>LineTerminator\<close> code points, all of them
  single code units.
\<close>

definition isWhiteSpace :: "codeUnit \<Rightarrow> bool" where
  "isWhiteSpace c =
     (c \<in> set [0x09, 0x0A, 0x0B, 0x0C, 0x0D, 0x20, 0xA0, 0x1680, 0x2028, 0x2029, 0x202F,
                0x205F, 0x3000, 0xFEFF]
      \<or> (0x2000 \<le> c \<and> c \<le> 0x200A))"

definition trimStart :: "jsstring \<Rightarrow> jsstring" where
  "trimStart s = dropWhile isWhiteSpace s"

definition trim :: "jsstring \<Rightarrow> jsstring" where
  "trim s = rev (dropWhile isWhiteSpace (rev (dropWhile isWhiteSpace s)))"

text \<open>
  \<open>toLowerCase\<close> and \<open>toUpperCase\<close>. For a string of code units up to \<open>U+00FF\<close> the Unicode
  mappings are written out: the letters \<open>A-Z\<close> and \<open>U+00C0-U+00DE\<close> (but not the
  multiplication sign \<open>U+00D7\<close>) have their lower case 32 places on, and conversely;
  upper case turns the sharp s \<open>U+00DF\<close> into \<open>SS\<close>, the micro sign \<open>U+00B5\<close> into
  \<open>U+039C\<close> and \<open>U+00FF\<close> into \<open>U+0178\<close>. Any other string is mapped by the engine.
\<close>

definition toLowerUnit :: "codeUnit \<Rightarrow> codeUnit" where
  "toLowerUnit c =
     (if (0x41 \<le> c \<and> c \<le> 0x5A) \<or> (0xC0 \<le> c \<and> c \<le> 0xDE \<and> c \<noteq> 0xD7) then c + 0x20 else c)"

definition toUpperUnits :: "codeUnit \<Rightarrow> jsstring" where
  "toUpperUnits c =
     (if c = 0xDF then [0x53, 0x53]
      else if c = 0xB5 then [0x39C]
      else if c = 0xFF then [0x178]
      else if (0x61 \<le> c \<and> c \<le> 0x7A) \<or> (0xE0 \<le> c \<and> c \<le> 0xFE \<and> c \<noteq> 0xF7) then [c - 0x20]
      else [c])"

definition toLowerCase :: "runtime \<Rightarrow> jsstring \<Rightarrow> jsstring" where
  "toLowerCase rt s =
     (if list_all (\<lambda>c. c \<le> 0xFF) s then map toLowerUnit s else lowerCaseWide rt s)"

definition toUpperCase :: "runtime \<Rightarrow> jsstring \<Rightarrow> jsstring" where
  "toUpperCase rt s =
     (if list_all (\<lambda>c. c \<le> 0xFF) s then concat (map toUpperUnits s) else upperCaseWide rt s)"

text \<open>\<open>s.split(sep)\<close> for a one-character separator: never empty, the empty string gives one empty part.\<close>

fun split :: "codeUnit \<Rightarrow> jsstring \<Rightarrow> jsstring list" where
  "split sep [] = [[]]"
| "split sep (c # cs) =
     (if c = sep then [] # split sep cs
      else (case split sep cs of [] \<Rightarrow> [[c]] | x # xs \<Rightarrow> (c # x) # xs))"

text \<open>\<open>String(n)\<close> for a non-negative integer, and \<open>padStart(3, '0')\<close>.\<close>

fun decimal :: "nat \<Rightarrow> jsstring" where
  "decimal n =
     (if n < 10 then [chZero + of_nat n]
      else decimal (n div 10) @ [chZero + of_nat (n mod 10)])"

declare decimal.simps [simp del]

definition padStart3 :: "jsstring \<Rightarrow> jsstring" where
  "padStart3 s = replicate (3 - length s) chZero @ s"

text \<open>
  \<open>parseInt(s)\<close> with no radix: leading white space and a sign are skipped, a \<open>0x\<close>
  prefix selects radix 16, and the longest run of digits is read; no digit gives \<open>NaN\<close>,
  here \<open>None\<close>. The value is kept as an exact integer: the handler only compares it with
  15, and rounding to a double does not change that comparison.
\<close>

definition digitVal :: "codeUnit \<Rightarrow> nat option" where
  "digitVal c =
     (if 0x30 \<le> c \<and> c \<le> 0x39 then Some (unat c - 0x30)
      else if 0x61 \<le> c \<and> c \<le> 0x66 then Some (unat c - 0x61 + 10)
      else if 0x41 \<le> c \<and> c \<le> 0x46 then Some (unat c - 0x41 + 10)
      else None)"

definition isDigit :: "nat \<Rightarrow> codeUnit \<Rightarrow> bool" where
  "isDigit radix c = (case digitVal c of None \<Rightarrow> False | Some d \<Rightarrow> d < radix)"

definition digitsValue :: "nat \<Rightarrow> jsstring \<Rightarrow> nat" where
  "digitsValue radix z = foldl (\<lambda>a c. a * radix + (case digitVal c of None \<Rightarrow> 0 | Some v \<Rightarrow> v)) 0 z"

definition parseInt :: "jsstring \<Rightarrow> int option" where
  "parseInt str =
     (let s = trimStart str;
          sign = (if take 1 s = [chMinus] then - 1 else 1);
          s1 = (if take 1 s = [chMinus] \<or> take 1 s = [chPlus] then drop 1 s else s);
          radix = (if take 2 s1 = lit ''0x'' \<or> take 2 s1 = lit ''0X'' then 16 else 10);
          s2 = (if radix = 16 then drop 2 s1 else s1);
          z = takeWhile (isDigit radix) s2
      in if z = [] then None else Some (sign * int (digitsValue radix z)))"

text \<open>
  \<open>x.toFixed(1)\<close>: a non-finite number prints by name; below \<open>10^21\<close> the digits are those
  of the integer \<open>n\<close> nearest to \<open>10 * |x|\<close> (the larger one on a tie), with the point before
  the last digit; from \<open>10^21\<close> on the magnitude prints as \<open>Number::toString\<close> prints it.
\<close>

definition toFixed1 :: "runtime \<Rightarrow> jsnum \<Rightarrow> jsstring" where
  "toFixed1 rt x =
     (case x of
        NaN \<Rightarrow> lit ''NaN''
      | PosInf \<Rightarrow> lit ''Infinity''
      | NegInf \<Rightarrow> lit ''-Infinity''
      | Fin q \<Rightarrow>
          (let s = (if q < 0 then lit ''-'' else []);
               a = \<bar>q\<bar>
           in if 10 ^ 21 \<le> a then s @ numberToString rt (Fin a)
              else (let n = nat \<lfloor>a * 10 + 1 / 2\<rfloor>
                    in s @ decimal (n div 10) @ lit ''.'' @ decimal (n mod 10))))"

section \<open>Documents and responses\<close>

text \<open>
  A \<open>String\<close> path of a stored document is missing, \<open>null\<close>, or a string; \<open>truthy\<close> is
  the test a condition applies to it, \<open>printed\<close> is what a template literal prints for it.
  A candidate has every \<open>String\<close> path of \<open>candidateSchema\<close>; a missing \<open>status\<close> reads
  as the schema's default \<open>Onboarded\<close>, which no handler here tells from a missing one.
\<close>

datatype field = Absent | Null | Text jsstring

definition truthy :: "field \<Rightarrow> bool" where
  "truthy v = (case v of Text s \<Rightarrow> s \<noteq> [] | _ \<Rightarrow> False)"

definition printed :: "field \<Rightarrow> jsstring" where
  "printed v = (case v of Absent \<Rightarrow> lit ''undefined'' | Null \<Rightarrow> lit ''null'' | Text s \<Rightarrow> s)"

record candidate =
  candId :: nat
  onboardedByTaName :: field
  onboardedByTaEmail :: field
  firstName :: field
  lastName :: field
  email :: field
  contactNumber :: field
  program :: field
  project :: field
  username :: field
  password :: field
  status :: field
  result :: field
  score :: field
  successCount :: field
  videoLink :: field

record questionBankItem =
  questionBankName :: jsstring
  questionId :: jsstring
  question :: jsstring
  referenceUrls :: "jsstring option list"
  options :: "jsstring option"
  questionType :: jsstring
  correctAnswer :: "jsstring option"

record db =
  candidates :: "candidate list"
  questions :: "questionBankItem list"

record jwtPayload =
  tokId :: nat
  tokUsername :: field
  tokQuestionBankName :: jsstring
  tokScope :: jsstring

record examQuestion =
  qId :: jsstring
  qQuestion :: jsstring
  qOptions :: "jsstring list"
  qAnswer :: "jsstring option"
  qTime :: nat
  qType :: jsstring

datatype body =
    Error jsstring
  | Outcome bool jsstring
  | Token jwtPayload jsstring
  | Exam jsstring field "examQuestion list"

type_synonym response = "nat \<times> body"

text \<open>\<open>Candidate.findById\<close>.\<close>

definition findById :: "db \<Rightarrow> nat \<Rightarrow> candidate option" where
  "findById d i = find (\<lambda>c. candId c = i) (candidates d)"

text \<open>
  \<open>candidate.save()\<close> of a document read by \<open>findById\<close>. Mongoose validates the document
  against \<open>candidateSchema\<close> first: a path declared \<open>required: true\<close> must hold a string
  of length above 0. A document that fails is not written and \<open>save()\<close> rejects (\<open>None\<close>).
\<close>

definition checkRequired :: "field \<Rightarrow> bool" where
  "checkRequired v = (case v of Text s \<Rightarrow> s \<noteq> [] | _ \<Rightarrow> False)"

definition validates :: "candidate \<Rightarrow> bool" where
  "validates c =
     (checkRequired (onboardedByTaName c) \<and> checkRequired (onboardedByTaEmail c)
      \<and> checkRequired (firstName c) \<and> checkRequired (lastName c) \<and> checkRequired (email c)
      \<and> checkRequired (program c) \<and> checkRequired (username c) \<and> checkRequired (password c))"

definition save :: "candidate \<Rightarrow> db \<Rightarrow> db option" where
  "save c d =
     (if validates c
      then Some (d\<lparr>candidates := map (\<lambda>x. if candId x = candId c then c else x) (candidates d)\<rparr>)
      else None)"

text \<open>
  Assigning a body field to a \<open>String\<close> path casts it as Mongoose does: a missing value
  and \<open>null\<close> stay, a string is itself, a boolean and a number print, an object that has
  a non-empty string under \<open>_id\<close> gives that string, and an array or any other object
  cannot be cast (\<open>None\<close>): the path is marked invalid and \<open>save()\<close> rejects.
\<close>

definition castString :: "runtime \<Rightarrow> json \<Rightarrow> field option" where
  "castString rt v =
     (case v of
        JUndefined \<Rightarrow> Some Absent
      | JNull \<Rightarrow> Some Null
      | JBool b \<Rightarrow> Some (Text (if b then lit ''true'' else lit ''false''))
      | JNum x \<Rightarrow> Some (Text (numberToString rt x))
      | JStr s \<Rightarrow> Some (Text s)
      | JArr xs \<Rightarrow> None
      | JObj kvs \<Rightarrow>
          (case property kvs (lit ''_id'') of
             JStr i \<Rightarrow> if i \<noteq> [] then Some (Text i) else None
           | _ \<Rightarrow> None))"

text \<open>
  A request reaches a handler with the payload of a token that \<open>authenticateToken\<close> has
  verified. The \<open>authorize(null, 'test-taker')\<close> middleware checks the scope only.
\<close>

definition authorize :: "jsstring \<Rightarrow> jwtPayload \<Rightarrow> response option" where
  "authorize allowedScope user =
     (if tokScope user \<noteq> allowedScope
      then Some (403, Error (lit ''Forbidden: Invalid token scope for this action''))
      else None)"

section \<open>Submit and fail\<close>

text \<open>
  The part of both handlers after \<open>candidate.save()\<close>: the completion time is formatted for
  the given zone (a \<open>RangeError\<close> for a zone the engine does not know), then the mail goes
  to the recruiter if one is recorded. An exception ends in the handler's \<open>catch\<close>: 500.
\<close>

definition notifyTa :: "runtime \<Rightarrow> jsstring \<Rightarrow> candidate \<Rightarrow> jsstring \<Rightarrow> response" where
  "notifyTa rt timeZone c okMessage =
     (if \<not> knownTimeZone rt timeZone then (500, Outcome False (lit ''An error occurred.''))
      else (case onboardedByTaEmail c of
              Text a \<Rightarrow>
                if a \<noteq> [] \<and> \<not> sendMail rt a then (500, Outcome False (lit ''An error occurred.''))
                else (200, Outcome True okMessage)
            | _ \<Rightarrow> (200, Outcome True okMessage)))"

definition verdict :: "int \<Rightarrow> jsnum \<Rightarrow> jsstring" where
  "verdict attemptedQuestions numericPercentage =
     (if attemptedQuestions < 15 then lit ''Not Qualified''
      else if numGe numericPercentage (3 / 4) then lit ''Pass''
      else lit ''Fail'')"

text \<open>
  \<open>POST /api/test/submit\<close>. \<open>percentage\<close> is what \<open>parseFloat\<close> reads from the body's
  field. When \<open>scoreString\<close> is not a string, or is a string with no second
  \<open>/\<close>-separated part, the handler raises before it assigns anything; when \<open>save()\<close>
  rejects, nothing is written. Both end in the \<open>catch\<close>: 500.
\<close>

definition test_submit ::
  "runtime \<Rightarrow> jwtPayload \<Rightarrow> jsnum \<Rightarrow> json \<Rightarrow> db \<Rightarrow> response \<times> db" where
  "test_submit rt user percentage scoreString d =
     (case authorize (lit ''test-taker'') user of
        Some r \<Rightarrow> (r, d)
      | None \<Rightarrow>
     (case findById d (tokId user) of
        None \<Rightarrow> ((404, Outcome False (lit ''User not found.'')), d)
      | Some c \<Rightarrow>
          if truthy (result c) then ((403, Outcome False (lit ''Test already submitted.'')), d)
          else
            (case scoreString of
               JStr s \<Rightarrow>
                 (case drop 1 (split chSlash s) of
                    [] \<Rightarrow> ((500, Outcome False (lit ''An error occurred.'')), d)
                  | part # _ \<Rightarrow>
                      (let numericPercentage = orZero percentage;
                           attemptedQuestions =
                             (case parseInt (trim part) of None \<Rightarrow> 0 | Some n \<Rightarrow> n);
                           candidateStatus = verdict attemptedQuestions numericPercentage;
                           c' = c\<lparr>score :=
                                    Text (toFixed1 rt (numMul rt numericPercentage (Fin 100))
                                          @ lit ''%''),
                                  result := Text s,
                                  status := Text candidateStatus\<rparr>
                       in case save c' d of
                            None \<Rightarrow> ((500, Outcome False (lit ''An error occurred.'')), d)
                          | Some d' \<Rightarrow>
                              (notifyTa rt (lit ''Asia/Kolkata'') c'
                                 (lit ''Test submitted and email sent.''), d')))
             | _ \<Rightarrow> ((500, Outcome False (lit ''An error occurred.'')), d))))"

text \<open>\<open>POST /api/test/fail\<close>; the zone name is the one the source passes.\<close>

definition test_fail ::
  "runtime \<Rightarrow> jwtPayload \<Rightarrow> json \<Rightarrow> db \<Rightarrow> response \<times> db" where
  "test_fail rt user failureReason d =
     (case authorize (lit ''test-taker'') user of
        Some r \<Rightarrow> (r, d)
      | None \<Rightarrow>
     (case findById d (tokId user) of
        None \<Rightarrow> ((404, Outcome False (lit ''User not found.'')), d)
      | Some c \<Rightarrow>
          if truthy (result c) then ((403, Outcome False (lit ''Test already submitted.'')), d)
          else
            (case castString rt failureReason of
               None \<Rightarrow> ((500, Outcome False (lit ''An error occurred.'')), d)
             | Some reason \<Rightarrow>
                 (let c' = c\<lparr>score := Text (lit ''0.0%''),
                              result := Text (lit ''0 / 0''),
                              status := reason,
                              videoLink := reason\<rparr>
                  in case save c' d of
                       None \<Rightarrow> ((500, Outcome False (lit ''An error occurred.'')), d)
                     | Some d' \<Rightarrow>
                         (notifyTa rt (lit ''Asia/KKolkata'') c'
                            (lit ''Failure recorded and email sent.''), d')))))"

section \<open>Test-taker login\<close>

definition findByUsername :: "db \<Rightarrow> jsstring \<Rightarrow> candidate option" where
  "findByUsername d u = find (\<lambda>c. username c = Text u) (candidates d)"

text \<open>The bank name is the trimmed template literal \<open>`${program} ${project}`\<close>.\<close>

definition bankNameOf :: "candidate \<Rightarrow> jsstring" where
  "bankNameOf c = trim (printed (program c) @ [chBlank] @ printed (project c))"

definition replaceAmpersand :: "jsstring \<Rightarrow> jsstring" where
  "replaceAmpersand s = concat (map (\<lambda>c. if c = chAmpersand then lit ''and'' else [c]) s)"

function replaceSpaces :: "jsstring \<Rightarrow> jsstring" where
  "replaceSpaces [] = []"
| "replaceSpaces (c # cs) =
     (if isWhiteSpace c then chUnderscore # replaceSpaces (dropWhile isWhiteSpace cs)
      else c # replaceSpaces cs)"
  by pat_completeness auto
termination
  by (relation "measure length") (auto simp: length_dropWhile_le less_Suc_eq_le)

definition pageOf :: "jsstring \<Rightarrow> jsstring" where
  "pageOf bankName = replaceSpaces (replaceAmpersand bankName) @ lit ''_test''"

text \<open>
  \<open>POST /api/test/auth/login\<close>. A field that is not truthy is answered 400. A username
  that is not a string has no \<open>toLowerCase\<close>, and \<open>bcrypt.compare\<close> rejects a password or
  a stored hash that is not a string: both raise inside the \<open>try\<close>, 500. The handler
  reads the store and writes nothing; the token is the payload that is signed.
\<close>

definition closedForLogin :: "candidate \<Rightarrow> bool" where
  "closedForLogin c =
     (truthy (result c) \<or> status c = Text (lit ''Pass'') \<or> status c = Text (lit ''Fail''))"

definition loginError :: response where
  "loginError = (500, Error (lit ''An error occurred during verification.''))"

definition test_auth_login ::
  "runtime \<Rightarrow> json \<Rightarrow> json \<Rightarrow> db \<Rightarrow> response \<times> db" where
  "test_auth_login rt usernameField passwordField d =
     (if \<not> truthyJ usernameField \<or> \<not> truthyJ passwordField
      then ((400, Error (lit ''Username and password are required'')), d)
      else
        (case usernameField of
           JStr u \<Rightarrow>
             (case findByUsername d (toLowerCase rt u) of
                None \<Rightarrow> ((401, Error (lit ''Invalid username or password.'')), d)
              | Some c \<Rightarrow>
                  (case passwordField of
                     JStr p \<Rightarrow>
                       (case password c of
                          Text h \<Rightarrow>
                            (case bcryptCompare rt p h of
                               None \<Rightarrow> (loginError, d)
                             | Some isMatch \<Rightarrow>
                                 if \<not> isMatch
                                 then ((401, Error (lit ''Invalid username or password.'')), d)
                                 else if closedForLogin c
                                 then ((403, Error (lit ''The test has already been attempted with these credentials.'')), d)
                                 else
                                   (let questionBankName = bankNameOf c;
                                        payload = \<lparr>tokId = candId c,
                                                    tokUsername = username c,
                                                    tokQuestionBankName = questionBankName,
                                                    tokScope = lit ''test-taker''\<rparr>
                                    in ((200, Token payload (pageOf questionBankName)), d)))
                        | _ \<Rightarrow> (loginError, d))
                   | _ \<Rightarrow> (loginError, d)))
         | _ \<Rightarrow> (loginError, d)))"

section \<open>Exam setup\<close>

text \<open>
  \<open>shuffleArray\<close>: the loop runs \<open>i\<close> from \<open>length - 1\<close> down to 1 and swaps position \<open>i\<close>
  with position \<open>floor(Math.random() * (i + 1))\<close>. \<open>rnd k\<close> is the value of the \<open>k\<close>-th call
  of \<open>Math.random\<close>, a number in \<open>[0, 1)\<close>; the function returns the array and the number
  of the next call.
\<close>

fun shuffleLoop :: "(nat \<Rightarrow> rat) \<Rightarrow> nat \<Rightarrow> nat \<Rightarrow> 'a list \<Rightarrow> 'a list" where
  "shuffleLoop rnd k 0 a = a"
| "shuffleLoop rnd k (Suc i) a =
     (let j = nat \<lfloor>rnd k * of_nat (Suc i + 1)\<rfloor>
      in shuffleLoop rnd (Suc k) i (a[Suc i := a ! j, j := a ! Suc i]))"

definition shuffleArray :: "(nat \<Rightarrow> rat) \<Rightarrow> nat \<Rightarrow> 'a list \<Rightarrow> 'a list \<times> nat" where
  "shuffleArray rnd k a = (shuffleLoop rnd k (length a - 1) a, k + (length a - 1))"

function tripletLoop ::
  "(nat \<Rightarrow> rat) \<Rightarrow> nat \<Rightarrow> nat \<Rightarrow> nat \<Rightarrow> 'a list \<Rightarrow> 'a list \<Rightarrow> 'a list \<Rightarrow> 'a list \<Rightarrow> 'a list" where
  "tripletLoop rnd k i minCount easy moderate hard final =
     (if i < minCount then
        (let (triplet, k') = shuffleArray rnd k [easy ! i, moderate ! i, hard ! i]
         in tripletLoop rnd k' (i + 1) minCount easy moderate hard (final @ triplet))
      else final)"
  by pat_completeness auto
termination
  by (relation "measure (\<lambda>(rnd, k, i, minCount, rest). minCount - i)") auto

declare tripletLoop.simps [simp del]

definition assemble :: "(nat \<Rightarrow> rat) \<Rightarrow> questionBankItem list \<Rightarrow> questionBankItem list" where
  "assemble rnd allQuestions =
     (let (easyQuestions, k1) =
            shuffleArray rnd 0 (filter (\<lambda>q. questionType q = lit ''easy'') allQuestions);
          (moderateQuestions, k2) =
            shuffleArray rnd k1 (filter (\<lambda>q. questionType q = lit ''moderate'') allQuestions);
          (hardQuestions, k3) =
            shuffleArray rnd k2 (filter (\<lambda>q. questionType q = lit ''hard'') allQuestions);
          minCount = min (length easyQuestions) (min (length moderateQuestions) (length hardQuestions))
      in tripletLoop rnd k3 0 minCount easyQuestions moderateQuestions hardQuestions [])"

definition cleanQuestion :: "questionBankItem \<Rightarrow> examQuestion" where
  "cleanQuestion q =
     \<lparr>qId = questionId q,
      qQuestion = question q,
      qOptions = (case options q of
                    None \<Rightarrow> []
                  | Some s \<Rightarrow> if s = [] then [] else map trim (split chComma s)),
      qAnswer = correctAnswer q,
      qTime = (if questionType q = lit ''hard'' then 2 else 1),
      qType = questionType q\<rparr>"

definition bankQuestions :: "db \<Rightarrow> jsstring \<Rightarrow> questionBankItem list" where
  "bankQuestions d bankName = filter (\<lambda>q. questionBankName q = bankName) (questions d)"

text \<open>
  \<open>GET /api/test/setup\<close>. A token whose candidate is gone makes \<open>candidate.result\<close> raise:
  500 from the \<open>catch\<close>.
\<close>

definition test_setup :: "runtime \<Rightarrow> jwtPayload \<Rightarrow> db \<Rightarrow> response \<times> db" where
  "test_setup rt user d =
     (case authorize (lit ''test-taker'') user of
        Some r \<Rightarrow> (r, d)
      | None \<Rightarrow>
     (case findById d (tokId user) of
        None \<Rightarrow> ((500, Outcome False (lit ''An error occurred while fetching questions.'')), d)
      | Some c \<Rightarrow>
          if truthy (result c)
          then ((403, Outcome False (lit ''Test has already been submitted.'')), d)
          else
            (let allQuestions = bankQuestions d (tokQuestionBankName user)
             in if length allQuestions = 0
                then ((404, Outcome False (lit ''Question bank '' @ [chApostrophe]
                         @ tokQuestionBankName user @ [chApostrophe]
                         @ lit '' not found or is empty.'')), d)
                else ((200, Exam (tokQuestionBankName user) (tokUsername user)
                              (map cleanQuestion (assemble (mathRandom rt) allQuestions))), d))))"

section \<open>Question bank editing\<close>

record questionData =
  dQuestion :: "jsstring option"
  dRef1 :: "jsstring option"
  dRef2 :: "jsstring option"
  dRef3 :: "jsstring option"
  dRef4 :: "jsstring option"
  dOptions :: "jsstring option"
  dType :: "jsstring option"
  dAnswer :: "jsstring option"

text \<open>\<open>[ref1, ref2, ref3, ref4].filter(String)\<close> drops the empty strings only.\<close>

definition refsOf :: "questionData \<Rightarrow> jsstring option list" where
  "refsOf qData = filter (\<lambda>r. r \<noteq> Some []) [dRef1 qData, dRef2 qData, dRef3 qData, dRef4 qData]"

text \<open>
  \<open>(qData.type || '').trim().toLowerCase()\<close>; the schema's own \<open>trim\<close> and \<open>lowercase\<close>
  setters then find the value trimmed and in lower case already.
\<close>

definition typeOf :: "runtime \<Rightarrow> questionData \<Rightarrow> jsstring" where
  "typeOf rt qData = toLowerCase rt (trim (case dType qData of None \<Rightarrow> [] | Some t \<Rightarrow> t))"

definition newQuestionId :: "runtime \<Rightarrow> jsstring \<Rightarrow> nat \<Rightarrow> jsstring" where
  "newQuestionId rt bankName questionCount =
     (let nameParts = split chBlank bankName;
          firstInitial = (if hd nameParts \<noteq> [] then take 1 (hd nameParts) else []);
          lastInitial = (if length nameParts > 1 then take 1 (last nameParts) else []);
          prefix = toUpperCase rt (firstInitial @ lastInitial);
          paddedNumber = padStart3 (decimal (questionCount + 1))
      in prefix @ paddedNumber)"

text \<open>
  \<open>POST /api/quizzer/questions/:questionBankName\<close>, as the handler runs once the quizzer
  middleware has let the request through. \<open>save()\<close> raises when the required question
  text is missing or empty, and when the unique index on \<open>questionId\<close> already holds the
  new identifier; the \<open>catch\<close> answers 500 with a message that starts as below and goes on
  with the error's own text, which is left out here.
\<close>

definition quizzer_question_add ::
  "runtime \<Rightarrow> jsstring \<Rightarrow> questionData \<Rightarrow> db \<Rightarrow> response \<times> db" where
  "quizzer_question_add rt bankName qData d =
     (let questionCount = length (bankQuestions d bankName);
          newId = newQuestionId rt bankName questionCount
      in case dQuestion qData of
           None \<Rightarrow> ((500, Outcome False (lit ''Failed to add question: '')), d)
         | Some text \<Rightarrow>
             if text = [] \<or> newId \<in> set (map questionId (questions d))
             then ((500, Outcome False (lit ''Failed to add question: '')), d)
             else ((201, Outcome True (lit ''Question added successfully!'')),
                   d\<lparr>questions := questions d @
                       [\<lparr>questionBankName = bankName, questionId = newId, question = text,
                         referenceUrls = refsOf qData, options = dOptions qData,
                         questionType = typeOf rt qData, correctAnswer = dAnswer qData\<rparr>]\<rparr>))"

text \<open>
  \<open>PUT\<close> and \<open>DELETE /api/quizzer/questions/:questionBankName/:questionId\<close>. Both handlers
  read \<open>questionId\<close> alone from the route parameters and act on the first document with
  that identifier. A body field that is absent leaves the stored field as it is.
\<close>

definition applyUpdate :: "runtime \<Rightarrow> questionData \<Rightarrow> questionBankItem \<Rightarrow> questionBankItem" where
  "applyUpdate rt qData q =
     q\<lparr>question := (case dQuestion qData of None \<Rightarrow> question q | Some t \<Rightarrow> t),
       referenceUrls := refsOf qData,
       options := (case dOptions qData of None \<Rightarrow> options q | Some v \<Rightarrow> Some v),
       questionType := typeOf rt qData,
       correctAnswer := (case dAnswer qData of None \<Rightarrow> correctAnswer q | Some v \<Rightarrow> Some v)\<rparr>"

fun updateFirst :: "('a \<Rightarrow> bool) \<Rightarrow> ('a \<Rightarrow> 'a) \<Rightarrow> 'a list \<Rightarrow> 'a list" where
  "updateFirst P f [] = []"
| "updateFirst P f (x # xs) = (if P x then f x # xs else x # updateFirst P f xs)"

fun deleteFirst :: "('a \<Rightarrow> bool) \<Rightarrow> 'a list \<Rightarrow> 'a list" where
  "deleteFirst P [] = []"
| "deleteFirst P (x # xs) = (if P x then xs else x # deleteFirst P xs)"

definition quizzer_question_update ::
  "runtime \<Rightarrow> jsstring \<Rightarrow> jsstring \<Rightarrow> questionData \<Rightarrow> db \<Rightarrow> response \<times> db" where
  "quizzer_question_update rt bankName qid qData d =
     (case find (\<lambda>q. questionId q = qid) (questions d) of
        None \<Rightarrow> ((404, Outcome False (lit ''Question ID not found.'')), d)
      | Some _ \<Rightarrow>
          ((200, Outcome True (lit ''Question updated successfully!'')),
           d\<lparr>questions := updateFirst (\<lambda>q. questionId q = qid) (applyUpdate rt qData) (questions d)\<rparr>))"

definition quizzer_question_delete :: "jsstring \<Rightarrow> jsstring \<Rightarrow> db \<Rightarrow> response \<times> db" where
  "quizzer_question_delete bankName qid d =
     (case find (\<lambda>q. questionId q = qid) (questions d) of
        None \<Rightarrow> ((404, Outcome False (lit ''Question ID not found.'')), d)
      | Some _ \<Rightarrow>
          ((200, Outcome True (lit ''Question deleted successfully!'')),
           d\<lparr>questions := deleteFirst (\<lambda>q. questionId q = qid) (questions d)\<rparr>))"

section \<open>Sample data\<close>

text \<open>
  A runtime for evaluation: the product of finite numbers is exact (right for operands
  such as \<open>0.75 * 100\<close>, whose product is a double), a number prints as its whole part
  (right for the integers below \<open>10^21\<close>), and the case mappings above \<open>U+00FF\<close> change
  nothing (right for a string without cased letters there). Then a candidate, the
  candidate's token, and a store in which the bank \<open>Go Backend\<close> has 5 easy, 3 moderate
  and 4 hard questions.
\<close>

definition isNegative :: "jsnum \<Rightarrow> bool" where
  "isNegative a = (case a of NegInf \<Rightarrow> True | Fin x \<Rightarrow> x < 0 | _ \<Rightarrow> False)"

definition exactMul :: "jsnum \<Rightarrow> jsnum \<Rightarrow> jsnum" where
  "exactMul a b =
     (case (a, b) of
        (Fin x, Fin y) \<Rightarrow> Fin (x * y)
      | _ \<Rightarrow> if a = NaN \<or> b = NaN \<or> a = Fin 0 \<or> b = Fin 0 then NaN
             else if isNegative a = isNegative b then PosInf else NegInf)"

definition wholeToString :: "jsnum \<Rightarrow> jsstring" where
  "wholeToString x =
     (case x of
        NaN \<Rightarrow> lit ''NaN''
      | PosInf \<Rightarrow> lit ''Infinity''
      | NegInf \<Rightarrow> lit ''-Infinity''
      | Fin q \<Rightarrow> (if q < 0 then lit ''-'' else []) @ decimal (nat \<lfloor>\<bar>q\<bar>\<rfloor>))"

definition demoRuntime :: runtime where
  "demoRuntime =
     \<lparr>numMul = exactMul,
      numberToString = wholeToString,
      lowerCaseWide = (\<lambda>s. s),
      upperCaseWide = (\<lambda>s. s),
      bcryptCompare = (\<lambda>pw h. Some (h = lit ''hash:'' @ pw)),
      mathRandom = (\<lambda>k. of_nat ((7 * k + 3) mod 10) / 10),
      knownTimeZone = (\<lambda>z. z = lit ''Asia/Kolkata''),
      sendMail = (\<lambda>to. True)\<rparr>"

definition demoCandidate :: candidate where
  "demoCandidate =
     \<lparr>candId = 7, onboardedByTaName = Text (lit ''Asha''),
      onboardedByTaEmail = Text (lit ''ta@example.com''),
      firstName = Text (lit ''Ravi''), lastName = Text (lit ''Kumar''),
      email = Text (lit ''ravi@example.com''), contactNumber = Absent,
      program = Text (lit ''Go''), project = Text (lit ''Backend''),
      username = Text (lit ''ravi@example.com''), password = Text (lit ''hash:s3cret''),
      status = Text (lit ''Mail Sent''), result = Absent, score = Absent,
      successCount = Absent, videoLink = Absent\<rparr>"

definition demoUser :: jwtPayload where
  "demoUser =
     \<lparr>tokId = 7, tokUsername = Text (lit ''ravi@example.com''),
      tokQuestionBankName = lit ''Go Backend'', tokScope = lit ''test-taker''\<rparr>"

definition demoQuestion :: "string \<Rightarrow> string \<Rightarrow> string \<Rightarrow> questionBankItem" where
  "demoQuestion bankName qid tier =
     \<lparr>questionBankName = lit bankName, questionId = lit qid, question = lit ''Which one?'',
      referenceUrls = [], options = Some (lit ''a, b, c''), questionType = lit tier,
      correctAnswer = Some (lit ''a'')\<rparr>"

definition demoDb :: db where
  "demoDb =
     \<lparr>candidates = [demoCandidate],
      questions =
        [demoQuestion ''Go Backend'' ''GB001'' ''easy'',
         demoQuestion ''Go Backend'' ''GB002'' ''moderate'',
         demoQuestion ''Go Backend'' ''GB003'' ''hard'',
         demoQuestion ''Go Backend'' ''GB004'' ''easy'',
         demoQuestion ''Python Scripting'' ''PS001'' ''easy'',
         demoQuestion ''Go Backend'' ''GB005'' ''hard'',
         demoQuestion ''Go Backend'' ''GB006'' ''easy'',
         demoQuestion ''Go Backend'' ''GB007'' ''moderate'',
         demoQuestion ''Go Backend'' ''GB008'' ''hard'',
         demoQuestion ''Go Backend'' ''GB009'' ''easy'',
         demoQuestion ''Go Backend'' ''GB010'' ''moderate'',
         demoQuestion ''Go Backend'' ''GB011'' ''easy'',
         demoQuestion ''Go Backend'' ''GB012'' ''hard'']\<rparr>"

text \<open>A closed record: the sample candidate after a passed exam.\<close>

definition demoClosedCandidate :: candidate where
  "demoClosedCandidate =
     demoCandidate\<lparr>status := Text (lit ''Pass''), result := Text (lit ''15 / 20''),
                   score := Text (lit ''75.0%'')\<rparr>"

definition demoClosedDb :: db where
  "demoClosedDb = demoDb\<lparr>candidates := [demoClosedCandidate]\<rparr>"

text \<open>A second, open candidate, and a store that holds the closed record and this one.\<close>

definition demoOtherCandidate :: candidate where
  "demoOtherCandidate =
     demoCandidate\<lparr>candId := 8, firstName := Text (lit ''Meera''),
                   email := Text (lit ''meera@example.com''),
                   username := Text (lit ''meera@example.com'')\<rparr>"

definition demoOtherUser :: jwtPayload where
  "demoOtherUser = demoUser\<lparr>tokId := 8, tokUsername := Text (lit ''meera@example.com'')\<rparr>"

definition demoTwoDb :: db where
  "demoTwoDb = demoDb\<lparr>candidates := [demoClosedCandidate, demoOtherCandidate]\<rparr>"

text \<open>
  An open record that does not pass validation: the recruiter's address, a required
  path, is the empty string.
\<close>

definition demoUnvalidatedCandidate :: candidate where
  "demoUnvalidatedCandidate = demoCandidate\<lparr>onboardedByTaEmail := Text []\<rparr>"

definition demoUnvalidatedDb :: db where
  "demoUnvalidatedDb = demoDb\<lparr>candidates := [demoUnvalidatedCandidate]\<rparr>"

definition demoEdit :: questionData where
  "demoEdit =
     \<lparr>dQuestion = Some (lit ''Changed?''), dRef1 = None, dRef2 = Some [],
      dRef3 = Some (lit ''https://go.dev''), dRef4 = None, dOptions = Some (lit ''x, y''),
      dType = Some (lit '' Hard ''), dAnswer = Some (lit ''y'')\<rparr>"

section \<open>The identifier as the specification words it\<close>

text \<open>
  The words of a bank name are its non-empty parts between blanks. The specification's
  identifier: the first letter of the first word and the first letter of the last word,
  upper-cased, then the count plus one, padded to three digits.
\<close>

definition bankWords :: "jsstring \<Rightarrow> jsstring list" where
  "bankWords bankName = filter (\<lambda>w. w \<noteq> []) (split chBlank bankName)"

definition claimedQuestionId :: "runtime \<Rightarrow> jsstring \<Rightarrow> nat \<Rightarrow> jsstring" where
  "claimedQuestionId rt bankName k =
     toUpperCase rt (case bankWords bankName of
                       [] \<Rightarrow> []
                     | w # ws \<Rightarrow> take 1 w @ take 1 (last (w # ws)))
       @ padStart3 (decimal (k + 1))"

section \<open>Sequences of verdict calls\<close>




section \<open>The shuffle as a function of the drawn positions\<close>


fun indexLoop :: "nat list \<Rightarrow> nat \<Rightarrow> 'a list \<Rightarrow> 'a list" where
  "indexLoop js 0 a = a"
| "indexLoop [] (Suc i) a = a"
| "indexLoop (j # js) (Suc i) a = indexLoop js i (a[Suc i := a ! j, j := a ! Suc i])"



section \<open>Properties\<close>

lemma unat_of_char: "unat (of_char c :: codeUnit) = of_char c"
proof -
  have "(of_char c :: nat) < 2 ^ 16"
    by (rule less_trans[OF nat_of_char_less_256]) simp
  moreover have "(of_char c :: codeUnit) = of_nat (of_char c)"
    by (simp only: of_nat_of_char)
  ultimately show ?thesis
    by (simp add: unat_of_nat take_bit_nat_eq_self)
qed

lemma lit_eq_iff [simp]: "(lit a = lit b) = (a = b)"
proof
  assume "lit a = lit b"
  then have "map unat (lit a) = map unat (lit b)" by simp
  then have "map (of_char :: char \<Rightarrow> nat) a = map of_char b"
    by (simp add: lit_def o_def unat_of_char)
  then show "a = b"
    by (simp add: inj_map_eq_map[OF inj_of_char])
qed simp

lemma lit_eq_Nil [simp]: "(lit s = []) = (s = [])"
  by (simp add: lit_def)

lemma length_lit [simp]: "length (lit s) = length s"
  by (simp add: lit_def)

lemma lit_append [simp]: "lit a @ lit b = lit (a @ b)"
  by (simp add: lit_def)

lemmas demo_defs = demoRuntime_def demoCandidate_def demoUser_def demoQuestion_def demoDb_def
  demoClosedCandidate_def demoClosedDb_def demoOtherCandidate_def demoOtherUser_def demoTwoDb_def
  demoUnvalidatedCandidate_def demoUnvalidatedDb_def demoEdit_def exactMul_def

lemmas handler_defs = authorize_def findById_def truthy_def checkRequired_def validates_def
  save_def castString_def notifyTa_def verdict_def test_submit_def test_fail_def


lemma validates_verdict_fields [simp]:
  "validates (c\<lparr>score := sc\<rparr>) = validates c"
  "validates (c\<lparr>result := r\<rparr>) = validates c"
  "validates (c\<lparr>status := st\<rparr>) = validates c"
  "validates (c\<lparr>videoLink := v\<rparr>) = validates c"
  by (simp_all add: validates_def)

lemma save_rejects: "\<not> validates c \<Longrightarrow> save c d = None"
  by (simp add: save_def)

lemma save_validates: "save c d = Some d' \<Longrightarrow> validates c"
  by (simp add: save_def split: if_splits)






text \<open>
  The zone name the fail handler passes is not one the engine knows, so after the record
  is saved the handler raises and answers 500 without sending the mail.
\<close>

lemma test_fail_response:
  assumes "tokScope user = lit ''test-taker''" "findById d (tokId user) = Some c"
    and "\<not> truthy (result c)"
    and "\<not> knownTimeZone rt (lit ''Asia/KKolkata'')"
  shows "fst (test_fail rt user failureReason d) = (500, Outcome False (lit ''An error occurred.''))"
  using assms
  by (auto simp: test_fail_def authorize_def Let_def notifyTa_def split: option.splits)


























lemma toFixed1_finite:
  assumes "\<bar>x\<bar> < 10 ^ 21"
  shows "toFixed1 rt (Fin x) =
           (if x < 0 then lit ''-'' else []) @ decimal (nat \<lfloor>\<bar>x\<bar> * 10 + 1 / 2\<rfloor> div 10) @ lit ''.''
             @ decimal (nat \<lfloor>\<bar>x\<bar> * 10 + 1 / 2\<rfloor> mod 10)"
  using assms by (simp add: toFixed1_def Let_def)




text \<open>
  The specification's scenarios on the sample store: 20 attempted at 0.8 passes with
  \<open>80.0%\<close>; 10 attempted at 0.9 is not qualified, the attempted count coming first; a
  count written after a no-break space is read all the same.
\<close>

lemma scenario_pass:
  "map (\<lambda>c. (status c, score c, result c, videoLink c))
     (candidates (snd (test_submit demoRuntime demoUser (Fin (4 / 5)) (JStr (lit ''16 / 20'')) demoDb)))
   = [(Text (lit ''Pass''), Text (lit ''80.0%''), Text (lit ''16 / 20''), Absent)]"
proof -
  have parts: "split chSlash (lit ''16 / 20'') = [lit ''16 '', lit '' 20'']"
    by (simp add: lit_def)
  have count: "parseInt (trim (lit '' 20'')) = Some 20"
    by (simp add: lit_def trim_def isWhiteSpace_def parseInt_def trimStart_def Let_def isDigit_def
        digitVal_def digitsValue_def)
  have tenths: "nat \<lfloor>1601 / 2 :: rat\<rfloor> = 800" by code_simp
  have shown: "toFixed1 rt (Fin 80) = lit ''80.0''" for rt
    by (simp add: toFixed1_finite tenths decimal.simps[of 80] decimal.simps[of 8]
        decimal.simps[of 0] lit_def)
  show ?thesis
    by (simp add: handler_defs demo_defs parts count shown orZero_def)
qed

lemma scenario_not_qualified:
  "map (\<lambda>c. (status c, score c, result c, videoLink c))
     (candidates (snd (test_submit demoRuntime demoUser (Fin (9 / 10)) (JStr (lit ''9 / 10'')) demoDb)))
   = [(Text (lit ''Not Qualified''), Text (lit ''90.0%''), Text (lit ''9 / 10''), Absent)]"
proof -
  have parts: "split chSlash (lit ''9 / 10'') = [lit ''9 '', lit '' 10'']"
    by (simp add: lit_def)
  have count: "parseInt (trim (lit '' 10'')) = Some 10"
    by (simp add: lit_def trim_def isWhiteSpace_def parseInt_def trimStart_def Let_def isDigit_def
        digitVal_def digitsValue_def)
  have tenths: "nat \<lfloor>1801 / 2 :: rat\<rfloor> = 900" by code_simp
  have shown: "toFixed1 rt (Fin 90) = lit ''90.0''" for rt
    by (simp add: toFixed1_finite tenths decimal.simps[of 90] decimal.simps[of 9]
        decimal.simps[of 0] lit_def)
  show ?thesis
    by (simp add: handler_defs demo_defs parts count shown orZero_def)
qed

lemma scenario_no_break_space:
  "map (\<lambda>c. (status c, score c, result c))
     (candidates (snd (test_submit demoRuntime demoUser (Fin (7 / 8))
                         (JStr (lit ''15 /'' @ 0xA0 # lit ''20'')) demoDb)))
   = [(Text (lit ''Pass''), Text (lit ''87.5%''), Text (lit ''15 /'' @ 0xA0 # lit ''20''))]"
proof -
  have parts: "split chSlash (lit ''15 /'' @ 0xA0 # lit ''20'') = [lit ''15 '', 0xA0 # lit ''20'']"
    by (simp add: lit_def)
  have count: "parseInt (trim (0xA0 # lit ''20'')) = Some 20"
    by (simp add: lit_def trim_def isWhiteSpace_def parseInt_def trimStart_def Let_def isDigit_def
        digitVal_def digitsValue_def)
  have tenths: "nat \<lfloor>1751 / 2 :: rat\<rfloor> = 875" by code_simp
  have shown: "toFixed1 rt (Fin (175 / 2)) = lit ''87.5''" for rt
    by (simp add: toFixed1_finite tenths decimal.simps[of 87] decimal.simps[of 8]
        decimal.simps[of 5] lit_def)
  show ?thesis
    by (simp add: handler_defs demo_defs parts count shown orZero_def)
qed




lemma notifyTa_not_403 [simp]: "fst (notifyTa rt zone c msg) \<noteq> 403"
  by (simp add: notifyTa_def split: field.splits)



lemma login_frame: "snd (test_auth_login rt usernameField passwordField d) = d"
  by (auto simp: test_auth_login_def Let_def split: json.splits option.splits field.splits)









lemma draw_in_range:
  fixes r :: rat
  assumes "0 \<le> r" "r < 1" "0 < n"
  shows "nat \<lfloor>r * of_nat n\<rfloor> < n"
proof -
  have "r * of_nat n < of_nat n"
    using assms by (simp add: mult_less_cancel_right2)
  then have "\<lfloor>r * of_nat n\<rfloor> < int n"
    by (simp add: floor_less_iff)
  moreover have "0 \<le> \<lfloor>r * of_nat n\<rfloor>"
    using assms by simp
  ultimately show ?thesis by linarith
qed

lemma length_shuffleLoop [simp]: "length (shuffleLoop rnd k i a) = length a"
  by (induction i arbitrary: k a) (simp_all add: Let_def)

lemma mset_shuffleLoop:
  assumes "\<forall>k. 0 \<le> rnd k \<and> rnd k < 1" and "i < length a"
  shows "mset (shuffleLoop rnd k i a) = mset a"
  using assms(2)
proof (induction i arbitrary: k a)
  case 0
  then show ?case by simp
next
  case (Suc i)
  let ?j = "nat \<lfloor>rnd k * of_nat (Suc i + 1)\<rfloor>"
  have "?j < Suc i + 1"
    using assms(1) by (intro draw_in_range) simp_all
  with Suc.prems have j: "?j < length a" by simp
  have "mset (a[Suc i := a ! ?j, ?j := a ! Suc i]) = mset a"
    using Suc.prems j by (simp add: mset_swap)
  moreover have "mset (shuffleLoop rnd (Suc k) i (a[Suc i := a ! ?j, ?j := a ! Suc i]))
                   = mset (a[Suc i := a ! ?j, ?j := a ! Suc i])"
    using Suc.prems by (intro Suc.IH) simp
  ultimately show ?case by (simp add: Let_def)
qed

lemma length_shuffleArray [simp]: "length (fst (shuffleArray rnd k a)) = length a"
  by (simp add: shuffleArray_def)

lemma snd_shuffleArray [simp]: "snd (shuffleArray rnd k a) = k + (length a - 1)"
  by (simp add: shuffleArray_def)

lemma mset_shuffleArray:
  assumes "\<forall>k. 0 \<le> rnd k \<and> rnd k < 1"
  shows "mset (fst (shuffleArray rnd k a)) = mset a"
proof (cases a)
  case Nil
  then show ?thesis by (simp add: shuffleArray_def)
next
  case (Cons x xs)
  then show ?thesis using assms by (simp add: shuffleArray_def mset_shuffleLoop)
qed

lemma tripletLoop_concat:
  "tripletLoop rnd k i n E M H final =
     final @ concat (map (\<lambda>t. fst (shuffleArray rnd (k + 2 * (t - i)) [E ! t, M ! t, H ! t])) [i..<n])"
proof (induction rnd k i n E M H final rule: tripletLoop.induct)
  case (1 rnd k i minCount easy moderate hard final)
  show ?case
  proof (cases "i < minCount")
    case False
    then show ?thesis by (subst tripletLoop.simps) simp
  next
    case True
    obtain triplet k' where sh: "shuffleArray rnd k [easy ! i, moderate ! i, hard ! i] = (triplet, k')"
      by (cases "shuffleArray rnd k [easy ! i, moderate ! i, hard ! i]")
    then have k': "k' = k + 2" and tr: "triplet = fst (shuffleArray rnd k [easy ! i, moderate ! i, hard ! i])"
      by (auto simp: shuffleArray_def)
    have ih: "tripletLoop rnd k' (i + 1) minCount easy moderate hard (final @ triplet) =
        (final @ triplet) @ concat (map (\<lambda>t. fst (shuffleArray rnd (k' + 2 * (t - (i + 1)))
             [easy ! t, moderate ! t, hard ! t])) [i + 1..<minCount])"
      using "1.IH"[OF True sh[symmetric] refl] .
    have same: "map (\<lambda>t. fst (shuffleArray rnd (k' + 2 * (t - (i + 1))) [easy ! t, moderate ! t, hard ! t])) [i + 1..<minCount]
       = map (\<lambda>t. fst (shuffleArray rnd (k + 2 * (t - i)) [easy ! t, moderate ! t, hard ! t])) [i + 1..<minCount]"
    proof (rule map_cong[OF refl])
      fix t assume "t \<in> set [i + 1..<minCount]"
      then have "k' + 2 * (t - (i + 1)) = k + 2 * (t - i)" using k' by auto
      then show "fst (shuffleArray rnd (k' + 2 * (t - (i + 1))) [easy ! t, moderate ! t, hard ! t])
         = fst (shuffleArray rnd (k + 2 * (t - i)) [easy ! t, moderate ! t, hard ! t])" by simp
    qed
    have "tripletLoop rnd k i minCount easy moderate hard final
            = tripletLoop rnd k' (i + 1) minCount easy moderate hard (final @ triplet)"
      using True sh by (subst tripletLoop.simps) simp
    also have "\<dots> = (final @ triplet) @ concat (map (\<lambda>t. fst (shuffleArray rnd (k + 2 * (t - i))
             [easy ! t, moderate ! t, hard ! t])) [i + 1..<minCount])"
      by (simp only: ih same)
    finally show ?thesis
      using True by (simp add: upt_conv_Cons tr)
  qed
qed

lemma list3_nth: "length l = 3 \<Longrightarrow> l = [l ! 0, l ! 1, l ! 2]"
  by (auto simp: numeral_3_eq_3 length_Suc_conv)

lemma concat_blocks_length:
  "(\<forall>t<n. length (f t) = 3) \<Longrightarrow> length (concat (map f [0..<n])) = 3 * n"
  by (induction n) simp_all

lemma concat_blocks_nth:
  "(\<forall>t<n. length (f t) = 3) \<Longrightarrow> i < n \<Longrightarrow> r < 3 \<Longrightarrow> concat (map f [0..<n]) ! (3 * i + r) = f i ! r"
proof (induction n)
  case 0
  then show ?case by simp
next
  case (Suc n)
  have len: "length (concat (map f [0..<n])) = 3 * n"
    using Suc.prems(1) by (intro concat_blocks_length) simp
  show ?case
  proof (cases "i < n")
    case True
    then have "3 * i + r < 3 * n" using Suc.prems(3) by simp
    then show ?thesis using Suc True by (simp add: nth_append len)
  next
    case False
    then have "i = n" using Suc.prems(2) by simp
    then show ?thesis by (simp add: nth_append len)
  qed
qed

lemma mset_concat_blocks:
  assumes "n \<le> length E" "n \<le> length M" "n \<le> length H"
    and "\<forall>t<n. mset (f t) = {#E ! t, M ! t, H ! t#}"
  shows "mset (concat (map f [0..<n])) = mset (take n E) + mset (take n M) + mset (take n H)"
  using assms
proof (induction n)
  case 0
  then show ?case by simp
next
  case (Suc n)
  then have "mset (concat (map f [0..<n])) = mset (take n E) + mset (take n M) + mset (take n H)"
    by simp
  moreover have "mset (f n) = {#E ! n, M ! n, H ! n#}" using Suc.prems by simp
  ultimately show ?case using Suc.prems by (simp add: take_Suc_conv_app_nth)
qed

lemma mset_three_filters:
  assumes "\<And>x. \<not> (P x \<and> Q x)" "\<And>x. \<not> (P x \<and> R x)" "\<And>x. \<not> (Q x \<and> R x)"
  shows "mset (filter P xs) + mset (filter Q xs) + mset (filter R xs) \<subseteq># mset xs"
proof (rule mset_subset_eqI)
  fix a
  show "count (mset (filter P xs) + mset (filter Q xs) + mset (filter R xs)) a \<le> count (mset xs) a"
    using assms[of a] by auto
qed

lemma assemble_shape:
  assumes rnd: "\<forall>k. 0 \<le> rnd k \<and> rnd k < 1"
    and n: "n = min (length (filter (\<lambda>q. questionType q = lit ''easy'') bank))
                 (min (length (filter (\<lambda>q. questionType q = lit ''moderate'') bank))
                      (length (filter (\<lambda>q. questionType q = lit ''hard'') bank)))"
  shows "\<exists>E M H. mset E = mset (filter (\<lambda>q. questionType q = lit ''easy'') bank)
          \<and> mset M = mset (filter (\<lambda>q. questionType q = lit ''moderate'') bank)
          \<and> mset H = mset (filter (\<lambda>q. questionType q = lit ''hard'') bank)
          \<and> length (assemble rnd bank) = 3 * n
          \<and> (\<forall>i<n. mset [assemble rnd bank ! (3 * i), assemble rnd bank ! (3 * i + 1),
                           assemble rnd bank ! (3 * i + 2)] = {#E ! i, M ! i, H ! i#})
          \<and> mset (assemble rnd bank) = mset (take n E) + mset (take n M) + mset (take n H)"
proof -
  let ?e = "filter (\<lambda>q. questionType q = lit ''easy'') bank"
  let ?m = "filter (\<lambda>q. questionType q = lit ''moderate'') bank"
  let ?h = "filter (\<lambda>q. questionType q = lit ''hard'') bank"
  define E where "E = fst (shuffleArray rnd 0 ?e)"
  define k1 where "k1 = snd (shuffleArray rnd 0 ?e)"
  define M where "M = fst (shuffleArray rnd k1 ?m)"
  define k2 where "k2 = snd (shuffleArray rnd k1 ?m)"
  define H where "H = fst (shuffleArray rnd k2 ?h)"
  define k3 where "k3 = snd (shuffleArray rnd k2 ?h)"
  define f where "f = (\<lambda>t. fst (shuffleArray rnd (k3 + 2 * (t - 0)) [E ! t, M ! t, H ! t]))"
  have lens: "length E = length ?e" "length M = length ?m" "length H = length ?h"
    by (simp_all add: E_def M_def H_def)
  have A: "assemble rnd bank = concat (map f [0..<n])"
    unfolding assemble_def Let_def E_def M_def H_def k1_def k2_def k3_def f_def n
    by (simp add: case_prod_beta tripletLoop_concat)
  have f_len: "\<forall>t<n. length (f t) = 3" by (simp add: f_def)
  have f_mset: "\<forall>t<n. mset (f t) = {#E ! t, M ! t, H ! t#}"
    by (simp add: f_def mset_shuffleArray[OF rnd])
  have le: "n \<le> length E" "n \<le> length M" "n \<le> length H"
    by (simp_all add: n lens)
  have triple: "mset [assemble rnd bank ! (3 * i), assemble rnd bank ! (3 * i + 1),
                      assemble rnd bank ! (3 * i + 2)] = {#E ! i, M ! i, H ! i#}" if "i < n" for i
  proof -
    have "f i = [f i ! 0, f i ! 1, f i ! 2]"
      using f_len that by (intro list3_nth) simp
    moreover have "assemble rnd bank ! (3 * i) = f i ! 0"
      using concat_blocks_nth[OF f_len that, of 0] by (simp add: A)
    moreover have "assemble rnd bank ! (3 * i + 1) = f i ! 1"
      using concat_blocks_nth[OF f_len that, of 1] by (simp add: A)
    moreover have "assemble rnd bank ! (3 * i + 2) = f i ! 2"
      using concat_blocks_nth[OF f_len that, of 2] by (simp add: A)
    ultimately have "[assemble rnd bank ! (3 * i), assemble rnd bank ! (3 * i + 1),
                      assemble rnd bank ! (3 * i + 2)] = f i" by simp
    then show ?thesis using f_mset that by simp
  qed
  have "mset E = mset ?e" "mset M = mset ?m" "mset H = mset ?h"
    by (simp_all add: E_def M_def H_def mset_shuffleArray[OF rnd])
  moreover have "length (assemble rnd bank) = 3 * n"
    by (simp add: A concat_blocks_length[OF f_len])
  moreover have "mset (assemble rnd bank) = mset (take n E) + mset (take n M) + mset (take n H)"
    by (simp add: A mset_concat_blocks[OF le f_mset])
  ultimately show ?thesis using triple by blast
qed

lemma qType_cleanQuestion [simp]: "qType (cleanQuestion q) = questionType q"
  by (simp add: cleanQuestion_def)

lemma mset_take_subseteq: "mset (take n xs) \<subseteq># mset xs"
  by (metis append_take_drop_id mset_append mset_subset_eq_add_left)

lemma tier_count:
  assumes "mset A = mset (take n E) + mset (take n M) + mset (take n H)"
    and "n \<le> length E"
    and "\<forall>q\<in>set E. P q" "\<forall>q\<in>set M. \<not> P q" "\<forall>q\<in>set H. \<not> P q"
  shows "length (filter P A) = n"
proof -
  have "filter P (take n E) = take n E"
    using assms(3) by (auto simp: filter_id_conv dest: in_set_takeD)
  moreover have "filter P (take n M) = []" "filter P (take n H) = []"
    using assms(4,5) by (auto simp: filter_empty_conv dest: in_set_takeD)
  moreover have "length (filter P A) = size (filter_mset P (mset A))"
    by (metis mset_filter size_mset)
  ultimately show ?thesis
    using assms(1,2) by (simp flip: mset_filter)
qed

lemma setup_open:
  assumes "tokScope user = lit ''test-taker''"
    and "findById d (tokId user) = Some c"
    and "\<not> truthy (result c)"
  shows "fst (test_setup rt user d) =
           (if bankQuestions d (tokQuestionBankName user) = []
            then (404, Outcome False (lit ''Question bank '' @ [chApostrophe] @ tokQuestionBankName user
                        @ [chApostrophe] @ lit '' not found or is empty.''))
            else (200, Exam (tokQuestionBankName user) (tokUsername user)
                    (map cleanQuestion
                      (assemble (mathRandom rt) (bankQuestions d (tokQuestionBankName user))))))"
  using assms by (simp add: test_setup_def authorize_def Let_def)

text \<open>
  C2. Exam setup for an open candidate on a non-empty bank with \<open>e\<close> easy, \<open>m\<close> moderate and
  \<open>h\<close> hard questions, every \<open>Math.random()\<close> value being in \<open>[0, 1)\<close>: the exam has exactly
  \<open>3 * min e m h\<close> questions; the questions at positions \<open>3i\<close>, \<open>3i + 1\<close>, \<open>3i + 2\<close> are one
  easy, one moderate and one hard question; each tier occurs exactly \<open>min e m h\<close> times and
  the exam is drawn from the bank without repetition, so the surplus of a larger tier is
  left out.
\<close>

theorem exam_has_balanced_triplets:
  assumes "tokScope user = lit ''test-taker''"
    and "findById d (tokId user) = Some c"
    and "\<not> truthy (result c)"
    and "bank = bankQuestions d (tokQuestionBankName user)"
    and "bank \<noteq> []"
    and "\<forall>k. 0 \<le> mathRandom rt k \<and> mathRandom rt k < 1"
    and "e = length (filter (\<lambda>q. questionType q = lit ''easy'') bank)"
    and "m = length (filter (\<lambda>q. questionType q = lit ''moderate'') bank)"
    and "h = length (filter (\<lambda>q. questionType q = lit ''hard'') bank)"
  shows "\<exists>qs. fst (test_setup rt user d)
                 = (200, Exam (tokQuestionBankName user) (tokUsername user) qs)
          \<and> length qs = 3 * min e (min m h)
          \<and> (\<forall>i < min e (min m h).
                mset (map qType [qs ! (3 * i), qs ! (3 * i + 1), qs ! (3 * i + 2)])
                  = {#lit ''easy'', lit ''moderate'', lit ''hard''#})
          \<and> length (filter (\<lambda>q. qType q = lit ''easy'') qs) = min e (min m h)
          \<and> length (filter (\<lambda>q. qType q = lit ''moderate'') qs) = min e (min m h)
          \<and> length (filter (\<lambda>q. qType q = lit ''hard'') qs) = min e (min m h)
          \<and> mset qs \<subseteq># image_mset cleanQuestion (mset bank)"
proof -
  let ?n = "min e (min m h)"
  let ?A = "assemble (mathRandom rt) bank"
  let ?qs = "map cleanQuestion ?A"
  have n: "?n = min (length (filter (\<lambda>q. questionType q = lit ''easy'') bank))
                 (min (length (filter (\<lambda>q. questionType q = lit ''moderate'') bank))
                      (length (filter (\<lambda>q. questionType q = lit ''hard'') bank)))"
    using assms(7-9) by simp
  obtain E M H where
    E: "mset E = mset (filter (\<lambda>q. questionType q = lit ''easy'') bank)" and
    M: "mset M = mset (filter (\<lambda>q. questionType q = lit ''moderate'') bank)" and
    H: "mset H = mset (filter (\<lambda>q. questionType q = lit ''hard'') bank)" and
    len: "length ?A = 3 * ?n" and
    triple: "\<forall>i<?n. mset [?A ! (3 * i), ?A ! (3 * i + 1), ?A ! (3 * i + 2)] = {#E ! i, M ! i, H ! i#}" and
    all: "mset ?A = mset (take ?n E) + mset (take ?n M) + mset (take ?n H)"
    using assemble_shape[OF assms(6) n] by blast
  have setE: "\<forall>q\<in>set E. questionType q = lit ''easy''"
    and setM: "\<forall>q\<in>set M. questionType q = lit ''moderate''"
    and setH: "\<forall>q\<in>set H. questionType q = lit ''hard''"
    using mset_eq_setD[OF E] mset_eq_setD[OF M] mset_eq_setD[OF H] by auto
  have lenE: "length E = e" and lenM: "length M = m" and lenH: "length H = h"
    using mset_eq_length[OF E] mset_eq_length[OF M] mset_eq_length[OF H] assms(7-9) by simp_all
  have response: "fst (test_setup rt user d)
                 = (200, Exam (tokQuestionBankName user) (tokUsername user) ?qs)"
    using setup_open[OF assms(1-3)] assms(4,5) by simp
  have tiers: "mset (map qType [?qs ! (3 * i), ?qs ! (3 * i + 1), ?qs ! (3 * i + 2)])
                  = {#lit ''easy'', lit ''moderate'', lit ''hard''#}" if i: "i < ?n" for i
  proof -
    have "3 * i + 2 < 3 * ?n" using i by linarith
    then have "3 * i + 2 < length ?A" using len by simp
    then have "[?qs ! (3 * i), ?qs ! (3 * i + 1), ?qs ! (3 * i + 2)]
                 = map cleanQuestion [?A ! (3 * i), ?A ! (3 * i + 1), ?A ! (3 * i + 2)]"
      by simp
    then have "mset (map qType [?qs ! (3 * i), ?qs ! (3 * i + 1), ?qs ! (3 * i + 2)])
                 = image_mset questionType
                     (mset [?A ! (3 * i), ?A ! (3 * i + 1), ?A ! (3 * i + 2)])"
      by (simp only: map_map o_def qType_cleanQuestion mset_map)
    also have "\<dots> = image_mset questionType {#E ! i, M ! i, H ! i#}"
      using triple i by simp
    finally have "mset (map qType [?qs ! (3 * i), ?qs ! (3 * i + 1), ?qs ! (3 * i + 2)])
                 = image_mset questionType {#E ! i, M ! i, H ! i#}" .
    moreover have "E ! i \<in> set E" "M ! i \<in> set M" "H ! i \<in> set H"
      using i lenE lenM lenH by simp_all
    ultimately show ?thesis using setE setM setH by simp
  qed
  have filter_clean: "length (filter (\<lambda>q. qType q = t) ?qs)
                        = length (filter (\<lambda>q. questionType q = t) ?A)" for t
    by (simp add: filter_map o_def)
  have all_m: "mset ?A = mset (take ?n M) + mset (take ?n E) + mset (take ?n H)"
    and all_h: "mset ?A = mset (take ?n H) + mset (take ?n E) + mset (take ?n M)"
    by (simp_all only: all ac_simps)
  have count_easy: "length (filter (\<lambda>q. qType q = lit ''easy'') ?qs) = ?n"
    unfolding filter_clean
    by (rule tier_count[OF all]) (use setE setM setH lenE in simp_all)
  have count_moderate: "length (filter (\<lambda>q. qType q = lit ''moderate'') ?qs) = ?n"
    unfolding filter_clean
    by (rule tier_count[OF all_m]) (use setE setM setH lenM in simp_all)
  have count_hard: "length (filter (\<lambda>q. qType q = lit ''hard'') ?qs) = ?n"
    unfolding filter_clean
    by (rule tier_count[OF all_h]) (use setE setM setH lenH in simp_all)
  have "mset ?A \<subseteq># mset E + mset M + mset H"
    unfolding all by (intro subset_mset.add_mono mset_take_subseteq)
  also have "\<dots> \<subseteq># mset bank"
    unfolding E M H by (rule mset_three_filters) simp_all
  finally have "mset ?qs \<subseteq># image_mset cleanQuestion (mset bank)"
    by (simp add: image_mset_subseteq_mono)
  moreover have "length ?qs = 3 * ?n" using len by simp
  ultimately show ?thesis
    using response tiers count_easy count_moderate count_hard by blast
qed

theorem exam_has_balanced_triplets_witness:
  "tokScope demoUser = lit ''test-taker''
   \<and> findById demoDb (tokId demoUser) = Some demoCandidate
   \<and> \<not> truthy (result demoCandidate)
   \<and> bankQuestions demoDb (lit ''Go Backend'') = bankQuestions demoDb (tokQuestionBankName demoUser)
   \<and> bankQuestions demoDb (lit ''Go Backend'') \<noteq> []
   \<and> (\<forall>k. 0 \<le> mathRandom demoRuntime k \<and> mathRandom demoRuntime k < 1)
   \<and> (5::nat) = length (filter (\<lambda>q. questionType q = lit ''easy'') (bankQuestions demoDb (lit ''Go Backend'')))
   \<and> (3::nat) = length (filter (\<lambda>q. questionType q = lit ''moderate'') (bankQuestions demoDb (lit ''Go Backend'')))
   \<and> (4::nat) = length (filter (\<lambda>q. questionType q = lit ''hard'') (bankQuestions demoDb (lit ''Go Backend'')))
   \<and> (\<exists>qs. fst (test_setup demoRuntime demoUser demoDb)
               = (200, Exam (tokQuestionBankName demoUser) (tokUsername demoUser) qs)
          \<and> length qs = 9
          \<and> (\<forall>i<3. mset (map qType [qs ! (3 * i), qs ! (3 * i + 1), qs ! (3 * i + 2)])
                        = {#lit ''easy'', lit ''moderate'', lit ''hard''#})
          \<and> length (filter (\<lambda>q. qType q = lit ''easy'') qs) = 3
          \<and> length (filter (\<lambda>q. qType q = lit ''moderate'') qs) = 3
          \<and> length (filter (\<lambda>q. qType q = lit ''hard'') qs) = 3
          \<and> mset qs \<subseteq># image_mset cleanQuestion (mset (bankQuestions demoDb (lit ''Go Backend''))))"
proof -
  have h1: "tokScope demoUser = lit ''test-taker''" by (simp add: handler_defs bankQuestions_def demo_defs)
  have h2: "findById demoDb (tokId demoUser) = Some demoCandidate" by (simp add: handler_defs bankQuestions_def demo_defs)
  have h3: "\<not> truthy (result demoCandidate)" by (simp add: handler_defs bankQuestions_def demo_defs)
  have h4: "bankQuestions demoDb (lit ''Go Backend'') = bankQuestions demoDb (tokQuestionBankName demoUser)"
    by (simp add: handler_defs bankQuestions_def demo_defs)
  have h5: "bankQuestions demoDb (lit ''Go Backend'') \<noteq> []" by (simp add: handler_defs bankQuestions_def demo_defs)
  have h6: "\<forall>k. 0 \<le> mathRandom demoRuntime k \<and> mathRandom demoRuntime k < 1"
    by (simp add: demoRuntime_def)
  have h7: "(5::nat) = length (filter (\<lambda>q. questionType q = lit ''easy'') (bankQuestions demoDb (lit ''Go Backend'')))"
    by (simp add: handler_defs bankQuestions_def demo_defs)
  have h8: "(3::nat) = length (filter (\<lambda>q. questionType q = lit ''moderate'') (bankQuestions demoDb (lit ''Go Backend'')))"
    by (simp add: handler_defs bankQuestions_def demo_defs)
  have h9: "(4::nat) = length (filter (\<lambda>q. questionType q = lit ''hard'') (bankQuestions demoDb (lit ''Go Backend'')))"
    by (simp add: handler_defs bankQuestions_def demo_defs)
  have n: "min (5::nat) (min 3 4) = 3" by simp
  have "3 * min (5::nat) (min 3 4) = 9" by simp
  with exam_has_balanced_triplets[OF h1 h2 h3 h4 h5 h6 h7 h8 h9] n
  have "\<exists>qs. fst (test_setup demoRuntime demoUser demoDb)
               = (200, Exam (tokQuestionBankName demoUser) (tokUsername demoUser) qs)
          \<and> length qs = 9
          \<and> (\<forall>i<3. mset (map qType [qs ! (3 * i), qs ! (3 * i + 1), qs ! (3 * i + 2)])
                        = {#lit ''easy'', lit ''moderate'', lit ''hard''#})
          \<and> length (filter (\<lambda>q. qType q = lit ''easy'') qs) = 3
          \<and> length (filter (\<lambda>q. qType q = lit ''moderate'') qs) = 3
          \<and> length (filter (\<lambda>q. qType q = lit ''hard'') qs) = 3
          \<and> mset qs \<subseteq># image_mset cleanQuestion (mset (bankQuestions demoDb (lit ''Go Backend'')))"
    by simp
  with h1 h2 h3 h4 h5 h6 h7 h8 h9 show ?thesis by blast
qed

text \<open>
  C4. Exam setup never answers 200 for a bank with no question at all; for an open
  candidate it answers 404 on such a bank, and on a non-empty bank with an empty tier it
  answers 200 with an exam of no questions.
\<close>

theorem setup_on_empty_bank_and_empty_tier:
  "(bankQuestions d (tokQuestionBankName user) = [] \<longrightarrow> fst (fst (test_setup rt user d)) \<noteq> 200)
   \<and> (tokScope user = lit ''test-taker'' \<and> findById d (tokId user) = Some c \<and> \<not> truthy (result c) \<longrightarrow>
        (bankQuestions d (tokQuestionBankName user) = [] \<longrightarrow>
           fst (test_setup rt user d)
             = (404, Outcome False (lit ''Question bank '' @ [chApostrophe] @ tokQuestionBankName user
                        @ [chApostrophe] @ lit '' not found or is empty.'')))
      \<and> (bankQuestions d (tokQuestionBankName user) \<noteq> []
           \<and> (filter (\<lambda>q. questionType q = lit ''easy'') (bankQuestions d (tokQuestionBankName user)) = []
              \<or> filter (\<lambda>q. questionType q = lit ''moderate'') (bankQuestions d (tokQuestionBankName user)) = []
              \<or> filter (\<lambda>q. questionType q = lit ''hard'') (bankQuestions d (tokQuestionBankName user)) = [])
           \<longrightarrow> fst (test_setup rt user d)
                 = (200, Exam (tokQuestionBankName user) (tokUsername user) [])))"
proof -
  have never: "fst (fst (test_setup rt user d)) \<noteq> 200"
    if "bankQuestions d (tokQuestionBankName user) = []"
    using that by (auto simp: test_setup_def authorize_def Let_def split: option.splits)
  have no_tier: "assemble rnd bank = []"
    if "filter (\<lambda>q. questionType q = lit ''easy'') bank = []
        \<or> filter (\<lambda>q. questionType q = lit ''moderate'') bank = []
        \<or> filter (\<lambda>q. questionType q = lit ''hard'') bank = []" for rnd and bank :: "questionBankItem list"
  proof -
    have "min (length (filter (\<lambda>q. questionType q = lit ''easy'') bank))
            (min (length (filter (\<lambda>q. questionType q = lit ''moderate'') bank))
                 (length (filter (\<lambda>q. questionType q = lit ''hard'') bank))) = 0"
      using that by auto
    then show ?thesis
      by (simp add: assemble_def Let_def case_prod_beta tripletLoop_concat)
  qed
  show ?thesis
    using never no_tier by (auto simp: setup_open)
qed

theorem setup_on_empty_bank_and_empty_tier_witness:
  "bankQuestions demoDb (tokQuestionBankName (demoUser\<lparr>tokQuestionBankName := lit ''Rust Systems''\<rparr>)) = []
   \<and> tokScope (demoUser\<lparr>tokQuestionBankName := lit ''Rust Systems''\<rparr>) = lit ''test-taker''
   \<and> findById demoDb (tokId (demoUser\<lparr>tokQuestionBankName := lit ''Rust Systems''\<rparr>)) = Some demoCandidate
   \<and> \<not> truthy (result demoCandidate)
   \<and> fst (fst (test_setup demoRuntime (demoUser\<lparr>tokQuestionBankName := lit ''Rust Systems''\<rparr>) demoDb)) \<noteq> 200
   \<and> fst (test_setup demoRuntime (demoUser\<lparr>tokQuestionBankName := lit ''Rust Systems''\<rparr>) demoDb)
        = (404, Outcome False (lit ''Question bank '' @ [chApostrophe] @ lit ''Rust Systems'' @ [chApostrophe]
                                 @ lit '' not found or is empty.''))
   \<and> tokScope (demoUser\<lparr>tokQuestionBankName := lit ''Python Scripting''\<rparr>) = lit ''test-taker''
   \<and> findById demoDb (tokId (demoUser\<lparr>tokQuestionBankName := lit ''Python Scripting''\<rparr>)) = Some demoCandidate
   \<and> bankQuestions demoDb (tokQuestionBankName (demoUser\<lparr>tokQuestionBankName := lit ''Python Scripting''\<rparr>)) \<noteq> []
   \<and> filter (\<lambda>q. questionType q = lit ''hard'')
         (bankQuestions demoDb (tokQuestionBankName (demoUser\<lparr>tokQuestionBankName := lit ''Python Scripting''\<rparr>))) = []
   \<and> fst (test_setup demoRuntime (demoUser\<lparr>tokQuestionBankName := lit ''Python Scripting''\<rparr>) demoDb)
        = (200, Exam (lit ''Python Scripting'') (Text (lit ''ravi@example.com'')) [])"
proof -
  let ?rust = "demoUser\<lparr>tokQuestionBankName := lit ''Rust Systems''\<rparr>"
  let ?python = "demoUser\<lparr>tokQuestionBankName := lit ''Python Scripting''\<rparr>"
  have r1: "bankQuestions demoDb (tokQuestionBankName ?rust) = []" by (simp add: handler_defs bankQuestions_def demo_defs)
  have r2: "tokScope ?rust = lit ''test-taker''" by (simp add: handler_defs bankQuestions_def demo_defs)
  have r3: "findById demoDb (tokId ?rust) = Some demoCandidate" by (simp add: handler_defs bankQuestions_def demo_defs)
  have open_record: "\<not> truthy (result demoCandidate)" by (simp add: handler_defs bankQuestions_def demo_defs)
  have p1: "tokScope ?python = lit ''test-taker''" by (simp add: handler_defs bankQuestions_def demo_defs)
  have p2: "findById demoDb (tokId ?python) = Some demoCandidate" by (simp add: handler_defs bankQuestions_def demo_defs)
  have p3: "bankQuestions demoDb (tokQuestionBankName ?python) \<noteq> []" by (simp add: handler_defs bankQuestions_def demo_defs)
  have p4: "filter (\<lambda>q. questionType q = lit ''hard'') (bankQuestions demoDb (tokQuestionBankName ?python)) = []"
    by (simp add: handler_defs bankQuestions_def demo_defs)
  have names: "tokQuestionBankName ?rust = lit ''Rust Systems''"
    "tokQuestionBankName ?python = lit ''Python Scripting''"
    "tokUsername ?python = Text (lit ''ravi@example.com'')"
    by (simp_all add: demoUser_def)
  note rust = setup_on_empty_bank_and_empty_tier[where d = demoDb and user = ?rust
      and rt = demoRuntime and c = demoCandidate]
  note python = setup_on_empty_bank_and_empty_tier[where d = demoDb and user = ?python
      and rt = demoRuntime and c = demoCandidate]
  from rust r1 r2 r3 open_record
  have "fst (fst (test_setup demoRuntime ?rust demoDb)) \<noteq> 200"
    and "fst (test_setup demoRuntime ?rust demoDb)
        = (404, Outcome False (lit ''Question bank '' @ [chApostrophe] @ lit ''Rust Systems'' @ [chApostrophe]
                                 @ lit '' not found or is empty.''))"
    unfolding names by blast+
  moreover from python p1 p2 p3 p4 open_record
  have "fst (test_setup demoRuntime ?python demoDb) = (200, Exam (lit ''Python Scripting'') (Text (lit ''ravi@example.com'')) [])"
    unfolding names by blast
  ultimately show ?thesis using r1 r2 r3 open_record p1 p2 p3 p4 by blast
qed
text \<open>
  C5. Test-taker login with a string username and a string password, for the candidate
  \<open>c\<close> stored under the username in lower case (as \<open>toLowerCase\<close> gives it) with the
  hash \<open>h\<close>: a password that \<open>bcrypt.compare\<close> finds not to match \<open>h\<close> is answered 401;
  a matching password on a record whose \<open>result\<close> is set or whose status is \<open>Pass\<close> or
  \<open>Fail\<close> is answered 403; such a record never gets a token, whatever the password
  field; a matching password on an open record is answered 200 with a test-taker token
  for the candidate, scoped to the bank name made of program and project. Whatever the
  request and the store, a 200 answer means that the credentials matched a record that
  is still open. The store is left as it is.
\<close>

theorem login_outcomes:
  "(u \<noteq> [] \<and> p \<noteq> [] \<and> findByUsername d (toLowerCase rt u) = Some c \<and> password c = Text h \<longrightarrow>
       (bcryptCompare rt p h = Some False \<longrightarrow>
          fst (test_auth_login rt (JStr u) (JStr p) d)
            = (401, Error (lit ''Invalid username or password.'')))
     \<and> (bcryptCompare rt p h = Some True \<and> closedForLogin c \<longrightarrow>
          fst (test_auth_login rt (JStr u) (JStr p) d)
            = (403, Error (lit ''The test has already been attempted with these credentials.'')))
     \<and> (bcryptCompare rt p h = Some True \<and> \<not> closedForLogin c \<longrightarrow>
          fst (test_auth_login rt (JStr u) (JStr p) d)
            = (200, Token \<lparr>tokId = candId c, tokUsername = username c,
                             tokQuestionBankName =
                               trim (printed (program c) @ [chBlank] @ printed (project c)),
                             tokScope = lit ''test-taker''\<rparr>
                           (pageOf (bankNameOf c)))))
   \<and> (findByUsername d (toLowerCase rt u) = Some c \<and> closedForLogin c \<longrightarrow>
        fst (fst (test_auth_login rt (JStr u) passwordField d)) \<noteq> 200)
   \<and> (fst (fst (test_auth_login rt usernameField passwordField d)) = 200 \<longrightarrow>
        (\<exists>u' p' c' h'. usernameField = JStr u' \<and> passwordField = JStr p'
            \<and> findByUsername d (toLowerCase rt u') = Some c' \<and> password c' = Text h'
            \<and> bcryptCompare rt p' h' = Some True \<and> \<not> closedForLogin c'))
   \<and> snd (test_auth_login rt usernameField passwordField d) = d"
proof -
  have known: "fst (test_auth_login rt (JStr u) (JStr p) d) =
      (case bcryptCompare rt p h of
         None \<Rightarrow> loginError
       | Some isMatch \<Rightarrow>
           if \<not> isMatch then (401, Error (lit ''Invalid username or password.''))
           else if closedForLogin c
           then (403, Error (lit ''The test has already been attempted with these credentials.''))
           else (200, Token \<lparr>tokId = candId c, tokUsername = username c,
                             tokQuestionBankName = bankNameOf c, tokScope = lit ''test-taker''\<rparr>
                           (pageOf (bankNameOf c))))"
    if "u \<noteq> []" "p \<noteq> []" "findByUsername d (toLowerCase rt u) = Some c" "password c = Text h"
    using that by (simp add: test_auth_login_def truthyJ_def Let_def split: option.splits)
  have outcomes: "u \<noteq> [] \<and> p \<noteq> [] \<and> findByUsername d (toLowerCase rt u) = Some c
       \<and> password c = Text h \<longrightarrow>
       (bcryptCompare rt p h = Some False \<longrightarrow>
          fst (test_auth_login rt (JStr u) (JStr p) d)
            = (401, Error (lit ''Invalid username or password.'')))
     \<and> (bcryptCompare rt p h = Some True \<and> closedForLogin c \<longrightarrow>
          fst (test_auth_login rt (JStr u) (JStr p) d)
            = (403, Error (lit ''The test has already been attempted with these credentials.'')))
     \<and> (bcryptCompare rt p h = Some True \<and> \<not> closedForLogin c \<longrightarrow>
          fst (test_auth_login rt (JStr u) (JStr p) d)
            = (200, Token \<lparr>tokId = candId c, tokUsername = username c,
                             tokQuestionBankName =
                               trim (printed (program c) @ [chBlank] @ printed (project c)),
                             tokScope = lit ''test-taker''\<rparr>
                           (pageOf (bankNameOf c))))"
    by (auto simp: known bankNameOf_def)
  have never: "findByUsername d (toLowerCase rt u) = Some c \<and> closedForLogin c \<longrightarrow>
        fst (fst (test_auth_login rt (JStr u) passwordField d)) \<noteq> 200"
    by (auto simp: test_auth_login_def loginError_def Let_def
        split: json.splits field.splits option.splits)
  have only_when: "fst (fst (test_auth_login rt usernameField passwordField d)) = 200 \<longrightarrow>
        (\<exists>u' p' c' h'. usernameField = JStr u' \<and> passwordField = JStr p'
            \<and> findByUsername d (toLowerCase rt u') = Some c' \<and> password c' = Text h'
            \<and> bcryptCompare rt p' h' = Some True \<and> \<not> closedForLogin c')"
    by (auto simp: test_auth_login_def loginError_def Let_def
        split: json.splits field.splits option.splits if_splits)
  show ?thesis
    by (rule conjI[OF outcomes conjI[OF never conjI[OF only_when login_frame]]])
qed

lemma demo_login_strings:
  "toLowerCase rt (lit ''Ravi@Example.com'') = lit ''ravi@example.com''"
  "trim (lit ''Go'' @ [chBlank] @ lit ''Backend'') = lit ''Go Backend''"
  "pageOf (lit ''Go Backend'') = lit ''Go_Backend_test''"
  by (simp_all add: toLowerCase_def toLowerUnit_def trim_def isWhiteSpace_def pageOf_def
      replaceAmpersand_def lit_def)

theorem login_outcomes_witness:
  "lit ''Ravi@Example.com'' \<noteq> [] \<and> lit ''wrong'' \<noteq> [] \<and> lit ''s3cret'' \<noteq> []
   \<and> findByUsername demoDb (toLowerCase demoRuntime (lit ''Ravi@Example.com'')) = Some demoCandidate
   \<and> password demoCandidate = Text (lit ''hash:s3cret'')
   \<and> bcryptCompare demoRuntime (lit ''wrong'') (lit ''hash:s3cret'') = Some False
   \<and> fst (test_auth_login demoRuntime (JStr (lit ''Ravi@Example.com'')) (JStr (lit ''wrong'')) demoDb)
        = (401, Error (lit ''Invalid username or password.''))
   \<and> findByUsername demoClosedDb (toLowerCase demoRuntime (lit ''Ravi@Example.com''))
        = Some demoClosedCandidate
   \<and> password demoClosedCandidate = Text (lit ''hash:s3cret'')
   \<and> bcryptCompare demoRuntime (lit ''s3cret'') (lit ''hash:s3cret'') = Some True
   \<and> closedForLogin demoClosedCandidate
   \<and> fst (test_auth_login demoRuntime (JStr (lit ''Ravi@Example.com'')) (JStr (lit ''s3cret''))
             demoClosedDb)
        = (403, Error (lit ''The test has already been attempted with these credentials.''))
   \<and> fst (fst (test_auth_login demoRuntime (JStr (lit ''Ravi@Example.com'')) (JBool True)
                  demoClosedDb)) \<noteq> 200
   \<and> \<not> closedForLogin demoCandidate
   \<and> fst (test_auth_login demoRuntime (JStr (lit ''Ravi@Example.com'')) (JStr (lit ''s3cret'')) demoDb)
        = (200, Token \<lparr>tokId = 7, tokUsername = Text (lit ''ravi@example.com''),
                         tokQuestionBankName = lit ''Go Backend'', tokScope = lit ''test-taker''\<rparr>
                       (lit ''Go_Backend_test''))
   \<and> (\<exists>u' p' c' h'. JStr (lit ''Ravi@Example.com'') = JStr u' \<and> JStr (lit ''s3cret'') = JStr p'
            \<and> findByUsername demoDb (toLowerCase demoRuntime u') = Some c' \<and> password c' = Text h'
            \<and> bcryptCompare demoRuntime p' h' = Some True \<and> \<not> closedForLogin c')"
proof -
  have n1: "lit ''Ravi@Example.com'' \<noteq> []" "lit ''wrong'' \<noteq> []" "lit ''s3cret'' \<noteq> []"
    by simp_all
  have f1: "findByUsername demoDb (toLowerCase demoRuntime (lit ''Ravi@Example.com'')) = Some demoCandidate"
    by (simp add: demo_login_strings findByUsername_def demo_defs)
  have f2: "findByUsername demoClosedDb (toLowerCase demoRuntime (lit ''Ravi@Example.com''))
              = Some demoClosedCandidate"
    by (simp add: demo_login_strings findByUsername_def demo_defs)
  have w1: "password demoCandidate = Text (lit ''hash:s3cret'')"
    "password demoClosedCandidate = Text (lit ''hash:s3cret'')"
    by (simp_all add: demo_defs)
  have b1: "bcryptCompare demoRuntime (lit ''wrong'') (lit ''hash:s3cret'') = Some False"
    by (simp add: demo_defs)
  have b2: "bcryptCompare demoRuntime (lit ''s3cret'') (lit ''hash:s3cret'') = Some True"
    by (simp add: demo_defs)
  have c2: "closedForLogin demoClosedCandidate" by (simp add: closedForLogin_def truthy_def demo_defs)
  have c3: "\<not> closedForLogin demoCandidate" by (simp add: closedForLogin_def truthy_def demo_defs)
  have tok: "\<lparr>tokId = candId demoCandidate, tokUsername = username demoCandidate,
              tokQuestionBankName =
                trim (printed (program demoCandidate) @ [chBlank] @ printed (project demoCandidate)),
              tokScope = lit ''test-taker''\<rparr>
            = \<lparr>tokId = 7, tokUsername = Text (lit ''ravi@example.com''),
               tokQuestionBankName = lit ''Go Backend'', tokScope = lit ''test-taker''\<rparr>"
    using demo_login_strings(2) by (simp add: printed_def demo_defs)
  have page: "pageOf (bankNameOf demoCandidate) = lit ''Go_Backend_test''"
    using demo_login_strings(2,3) by (simp add: bankNameOf_def printed_def demo_defs)
  note wrong = login_outcomes[where u = "lit ''Ravi@Example.com''" and p = "lit ''wrong''"
      and d = demoDb and c = demoCandidate and rt = demoRuntime and h = "lit ''hash:s3cret''"]
  note closed = login_outcomes[where u = "lit ''Ravi@Example.com''" and p = "lit ''s3cret''"
      and d = demoClosedDb and c = demoClosedCandidate and rt = demoRuntime
      and h = "lit ''hash:s3cret''" and passwordField = "JBool True"]
  note good = login_outcomes[where u = "lit ''Ravi@Example.com''" and p = "lit ''s3cret''"
      and d = demoDb and c = demoCandidate and rt = demoRuntime and h = "lit ''hash:s3cret''"
      and usernameField = "JStr (lit ''Ravi@Example.com'')" and passwordField = "JStr (lit ''s3cret'')"]
  from wrong n1 f1 w1 b1
  have r1: "fst (test_auth_login demoRuntime (JStr (lit ''Ravi@Example.com'')) (JStr (lit ''wrong'')) demoDb)
        = (401, Error (lit ''Invalid username or password.''))" by blast
  from closed n1 f2 w1 b2 c2
  have r2: "fst (test_auth_login demoRuntime (JStr (lit ''Ravi@Example.com'')) (JStr (lit ''s3cret''))
             demoClosedDb)
        = (403, Error (lit ''The test has already been attempted with these credentials.''))"
    and r2': "fst (fst (test_auth_login demoRuntime (JStr (lit ''Ravi@Example.com'')) (JBool True)
                  demoClosedDb)) \<noteq> 200"
    by blast+
  from good n1 f1 w1 b2 c3
  have r3: "fst (test_auth_login demoRuntime (JStr (lit ''Ravi@Example.com'')) (JStr (lit ''s3cret'')) demoDb)
        = (200, Token \<lparr>tokId = 7, tokUsername = Text (lit ''ravi@example.com''),
                         tokQuestionBankName = lit ''Go Backend'', tokScope = lit ''test-taker''\<rparr>
                       (lit ''Go_Backend_test''))"
    unfolding tok page by blast
  then have "fst (fst (test_auth_login demoRuntime (JStr (lit ''Ravi@Example.com''))
                         (JStr (lit ''s3cret'')) demoDb)) = 200"
    by simp
  with good
  have r4: "\<exists>u' p' c' h'. JStr (lit ''Ravi@Example.com'') = JStr u' \<and> JStr (lit ''s3cret'') = JStr p'
            \<and> findByUsername demoDb (toLowerCase demoRuntime u') = Some c' \<and> password c' = Text h'
            \<and> bcryptCompare demoRuntime p' h' = Some True \<and> \<not> closedForLogin c'" by blast
  from n1 f1 f2 w1 b1 b2 c2 c3 r1 r2 r2' r3 r4 show ?thesis by blast
qed

text \<open>
  Strings outside ASCII: a username is matched in lower case also for \<open>U+00C9\<close>, a
  no-break space around the bank name is trimmed, and the initial of a bank name is put
  in upper case also for \<open>U+00E9\<close> and for the sharp s.
\<close>

lemma latin1_strings:
  "toLowerCase rt (0xC9 # lit ''MILE'') = 0xE9 # lit ''mile''"
  "trim (0xA0 # lit ''Go Backend'' @ [0x2003]) = lit ''Go Backend''"
  "toUpperCase rt (0xE9 # lit ''s'') = 0xC9 # lit ''S''"
  "toUpperCase rt [0xDF] = lit ''SS''"
  by (simp_all add: toLowerCase_def toLowerUnit_def toUpperCase_def toUpperUnits_def trim_def
      isWhiteSpace_def lit_def)

lemma updateFirst_others:
  assumes "\<And>x. P x \<Longrightarrow> P (f x)"
  shows "filter (\<lambda>x. \<not> P x) (updateFirst P f xs) = filter (\<lambda>x. \<not> P x) xs"
  using assms by (induction xs) auto

lemma deleteFirst_others:
  "filter (\<lambda>x. \<not> P x) (deleteFirst P xs) = filter (\<lambda>x. \<not> P x) xs"
  by (induction xs) auto

lemma updateFirst_other_pools:
  assumes "find P xs = Some x" and "\<not> Q x" and "\<And>y. Q (f y) = Q y"
  shows "filter Q (updateFirst P f xs) = filter Q xs"
  using assms by (induction xs) (auto split: if_splits)

lemma deleteFirst_other_pools:
  assumes "find P xs = Some x" and "\<not> Q x"
  shows "filter Q (deleteFirst P xs) = filter Q xs"
  using assms by (induction xs) (auto split: if_splits)

lemma updateFirst_none: "\<forall>x\<in>set xs. \<not> P x \<Longrightarrow> updateFirst P f xs = xs"
  by (induction xs) auto

lemma deleteFirst_none: "\<forall>x\<in>set xs. \<not> P x \<Longrightarrow> deleteFirst P xs = xs"
  by (induction xs) auto

lemma updateFirst_map:
  assumes "\<And>y. g (f y) = g y"
  shows "map g (updateFirst P f xs) = map g xs"
  using assms by (induction xs) auto

lemma applyUpdate_keeps [simp]:
  "questionId (applyUpdate rt qData x) = questionId x"
  "questionBankName (applyUpdate rt qData x) = questionBankName x"
  by (simp_all add: applyUpdate_def)

text \<open>
  C6 (amended). An update or delete call naming bank \<open>B\<close> and identifier \<open>q\<close> ignores \<open>B\<close>:
  it acts on the first stored question whose identifier is \<open>q\<close>, in whatever bank that
  question is. Every question with another identifier is unchanged, an update keeps the
  bank and the identifier of every question, the candidates are unchanged, and when \<open>x\<close> is
  the question found under \<open>q\<close>, the pool of every bank other than the bank of \<open>x\<close> is
  unchanged; when no question has the identifier, the store is unchanged.
\<close>

theorem edit_acts_on_identifier_alone:
  "quizzer_question_update rt B q qData d = quizzer_question_update rt B' q qData d
   \<and> quizzer_question_delete B q d = quizzer_question_delete B' q d
   \<and> filter (\<lambda>x. questionId x \<noteq> q) (questions (snd (quizzer_question_update rt B q qData d)))
       = filter (\<lambda>x. questionId x \<noteq> q) (questions d)
   \<and> filter (\<lambda>x. questionId x \<noteq> q) (questions (snd (quizzer_question_delete B q d)))
       = filter (\<lambda>x. questionId x \<noteq> q) (questions d)
   \<and> map questionBankName (questions (snd (quizzer_question_update rt B q qData d)))
       = map questionBankName (questions d)
   \<and> map questionId (questions (snd (quizzer_question_update rt B q qData d)))
       = map questionId (questions d)
   \<and> candidates (snd (quizzer_question_update rt B q qData d)) = candidates d
   \<and> candidates (snd (quizzer_question_delete B q d)) = candidates d
   \<and> (find (\<lambda>x. questionId x = q) (questions d) = Some x \<and> other \<noteq> questionBankName x \<longrightarrow>
         bankQuestions (snd (quizzer_question_update rt B q qData d)) other = bankQuestions d other
       \<and> bankQuestions (snd (quizzer_question_delete B q d)) other = bankQuestions d other)
   \<and> (find (\<lambda>x. questionId x = q) (questions d) = None \<longrightarrow>
         snd (quizzer_question_update rt B q qData d) = d
       \<and> snd (quizzer_question_delete B q d) = d)"
proof -
  have upd: "questions (snd (quizzer_question_update rt B q qData d))
               = updateFirst (\<lambda>x. questionId x = q) (applyUpdate rt qData) (questions d)"
  proof (cases "find (\<lambda>x. questionId x = q) (questions d)")
    case None
    then have "\<forall>x\<in>set (questions d). \<not> questionId x = q"
      by (simp add: find_None_iff)
    then have "updateFirst (\<lambda>x. questionId x = q) (applyUpdate rt qData) (questions d) = questions d"
      by (rule updateFirst_none)
    with None show ?thesis by (simp add: quizzer_question_update_def)
  next
    case (Some a)
    then show ?thesis by (simp add: quizzer_question_update_def)
  qed
  have del: "questions (snd (quizzer_question_delete B q d))
               = deleteFirst (\<lambda>x. questionId x = q) (questions d)"
  proof (cases "find (\<lambda>x. questionId x = q) (questions d)")
    case None
    then have "\<forall>x\<in>set (questions d). \<not> questionId x = q"
      by (simp add: find_None_iff)
    then have "deleteFirst (\<lambda>x. questionId x = q) (questions d) = questions d"
      by (rule deleteFirst_none)
    with None show ?thesis by (simp add: quizzer_question_delete_def)
  next
    case (Some a)
    then show ?thesis by (simp add: quizzer_question_delete_def)
  qed
  have same: "quizzer_question_update rt B q qData d = quizzer_question_update rt B' q qData d"
    "quizzer_question_delete B q d = quizzer_question_delete B' q d"
    by (simp_all add: quizzer_question_update_def quizzer_question_delete_def)
  have cands: "candidates (snd (quizzer_question_update rt B q qData d)) = candidates d"
    "candidates (snd (quizzer_question_delete B q d)) = candidates d"
    by (simp_all add: quizzer_question_update_def quizzer_question_delete_def split: option.splits)
  have others: "filter (\<lambda>x. questionId x \<noteq> q) (questions (snd (quizzer_question_update rt B q qData d)))
       = filter (\<lambda>x. questionId x \<noteq> q) (questions d)"
    "filter (\<lambda>x. questionId x \<noteq> q) (questions (snd (quizzer_question_delete B q d)))
       = filter (\<lambda>x. questionId x \<noteq> q) (questions d)"
    unfolding upd del
    by (simp_all add: updateFirst_others[where P = "\<lambda>x. questionId x = q"]
        deleteFirst_others[where P = "\<lambda>x. questionId x = q"])
  have keeps: "map questionBankName (questions (snd (quizzer_question_update rt B q qData d)))
       = map questionBankName (questions d)"
    "map questionId (questions (snd (quizzer_question_update rt B q qData d)))
       = map questionId (questions d)"
    unfolding upd by (simp_all add: updateFirst_map)
  have pools: "bankQuestions (snd (quizzer_question_update rt B q qData d)) other = bankQuestions d other
       \<and> bankQuestions (snd (quizzer_question_delete B q d)) other = bankQuestions d other"
    if "find (\<lambda>x. questionId x = q) (questions d) = Some x" "other \<noteq> questionBankName x"
    unfolding bankQuestions_def upd del
    using updateFirst_other_pools[OF that(1), of "\<lambda>y. questionBankName y = other" "applyUpdate rt qData"]
      deleteFirst_other_pools[OF that(1), of "\<lambda>y. questionBankName y = other"] that(2)
    by simp
  have absent: "snd (quizzer_question_update rt B q qData d) = d
       \<and> snd (quizzer_question_delete B q d) = d"
    if "find (\<lambda>x. questionId x = q) (questions d) = None"
    using that by (simp add: quizzer_question_update_def quizzer_question_delete_def)
  show ?thesis
    using same others keeps cands pools absent by blast
qed

theorem edit_acts_on_identifier_alone_witness:
  "find (\<lambda>x. questionId x = lit ''PS001'') (questions demoDb)
     = Some (demoQuestion ''Python Scripting'' ''PS001'' ''easy'')
   \<and> lit ''Go Backend'' \<noteq> questionBankName (demoQuestion ''Python Scripting'' ''PS001'' ''easy'')
   \<and> bankQuestions (snd (quizzer_question_update demoRuntime (lit ''Rust Systems'') (lit ''PS001'') demoEdit demoDb)) (lit ''Go Backend'')
       = bankQuestions demoDb (lit ''Go Backend'')
   \<and> bankQuestions (snd (quizzer_question_delete (lit ''Rust Systems'') (lit ''PS001'') demoDb)) (lit ''Go Backend'')
       = bankQuestions demoDb (lit ''Go Backend'')
   \<and> find (\<lambda>x. questionId x = lit ''XX999'') (questions demoDb) = None
   \<and> snd (quizzer_question_update demoRuntime (lit ''Go Backend'') (lit ''XX999'') demoEdit demoDb) = demoDb
   \<and> snd (quizzer_question_delete (lit ''Go Backend'') (lit ''XX999'') demoDb) = demoDb"
proof -
  have h1: "find (\<lambda>x. questionId x = lit ''PS001'') (questions demoDb)
     = Some (demoQuestion ''Python Scripting'' ''PS001'' ''easy'')"
    by (simp add: demo_defs)
  have h2: "lit ''Go Backend'' \<noteq> questionBankName (demoQuestion ''Python Scripting'' ''PS001'' ''easy'')"
    by (simp add: demo_defs)
  have h3: "find (\<lambda>x. questionId x = lit ''XX999'') (questions demoDb) = None"
    by (simp add: demo_defs)
  note found = edit_acts_on_identifier_alone[where q = "lit ''PS001''" and d = demoDb
      and x = "demoQuestion ''Python Scripting'' ''PS001'' ''easy''" and other = "lit ''Go Backend''"
      and B = "lit ''Rust Systems''" and qData = demoEdit]
  note absent = edit_acts_on_identifier_alone[where q = "lit ''XX999''" and d = demoDb
      and B = "lit ''Go Backend''" and qData = demoEdit]
  from found h1 h2
  have "bankQuestions (snd (quizzer_question_update demoRuntime (lit ''Rust Systems'') (lit ''PS001'') demoEdit demoDb)) (lit ''Go Backend'')
       = bankQuestions demoDb (lit ''Go Backend'')"
    and "bankQuestions (snd (quizzer_question_delete (lit ''Rust Systems'') (lit ''PS001'') demoDb)) (lit ''Go Backend'')
       = bankQuestions demoDb (lit ''Go Backend'')"
    by blast+
  moreover from absent h3
  have "snd (quizzer_question_update demoRuntime (lit ''Go Backend'') (lit ''XX999'') demoEdit demoDb) = demoDb"
    and "snd (quizzer_question_delete (lit ''Go Backend'') (lit ''XX999'') demoDb) = demoDb"
    by blast+
  ultimately show ?thesis using h1 h2 h3 by blast
qed

text \<open>
  C6 as worded fails: an update and a delete sent under the bank \<open>Go Backend\<close> with the
  identifier of the \<open>Python Scripting\<close> question change and remove that question.
\<close>

theorem edit_through_another_bank:
  "bankQuestions demoDb (lit ''Python Scripting'') = [demoQuestion ''Python Scripting'' ''PS001'' ''easy'']
   \<and> bankQuestions (snd (quizzer_question_update demoRuntime (lit ''Go Backend'') (lit ''PS001'') demoEdit demoDb))
         (lit ''Python Scripting'')
       = [\<lparr>questionBankName = lit ''Python Scripting'', questionId = lit ''PS001'',
            question = lit ''Changed?'', referenceUrls = [None, Some (lit ''https://go.dev''), None],
            options = Some (lit ''x, y''), questionType = lit ''hard'', correctAnswer = Some (lit ''y'')\<rparr>]
   \<and> bankQuestions (snd (quizzer_question_delete (lit ''Go Backend'') (lit ''PS001'') demoDb))
         (lit ''Python Scripting'') = []"
proof -
  have tier: "typeOf rt qData = lit ''hard''" if "dType qData = Some (lit '' Hard '')" for rt qData
    using that
    by (simp add: typeOf_def toLowerCase_def toLowerUnit_def trim_def isWhiteSpace_def lit_def)
  show ?thesis
    by (simp add: quizzer_question_update_def quizzer_question_delete_def applyUpdate_def refsOf_def
        bankQuestions_def tier demo_defs)
qed
lemma length_decimal_small: "n < 1000 \<Longrightarrow> length (decimal n) \<le> 3"
proof -
  assume n: "n < 1000"
  have one: "length (decimal m) = 1" if "m < 10" for m
    using that by (subst decimal.simps) simp
  have two: "length (decimal m) \<le> 2" if "m < 100" for m
  proof (cases "m < 10")
    case True
    then show ?thesis by (simp add: one)
  next
    case False
    then have "m div 10 < 10" using that by simp
    then show ?thesis using False by (subst decimal.simps) (simp add: one)
  qed
  show ?thesis
  proof (cases "n < 10")
    case True
    then show ?thesis by (simp add: one)
  next
    case False
    then have "n div 10 < 100" using n by simp
    then show ?thesis using False two[of "n div 10"] by (subst decimal.simps) simp
  qed
qed

text \<open>
  C9 (amended). The identifier of a question added to bank \<open>B\<close> holding \<open>k\<close> questions is
  the upper case, as \<open>toUpperCase\<close> gives it, of the first character of the first
  blank-separated part of \<open>B\<close> followed, only when \<open>B\<close> has more than one such part, by
  the first character of the last part; then comes \<open>k + 1\<close> padded with zeros to three
  digits. For a name of two or more words separated by single blanks this is the
  specification's identifier. A successful add appends one question that carries this
  identifier and the bank \<open>B\<close>.
\<close>

theorem new_question_identifier:
  "newQuestionId rt B k
     = toUpperCase rt (take 1 (hd (split chBlank B))
                    @ (if 1 < length (split chBlank B)
                       then take 1 (last (split chBlank B)) else []))
       @ padStart3 (decimal (k + 1))
   \<and> (k + 1 < 1000 \<longrightarrow> length (padStart3 (decimal (k + 1))) = 3)
   \<and> (split chBlank B = bankWords B \<and> 2 \<le> length (bankWords B) \<longrightarrow>
        newQuestionId rt B k = claimedQuestionId rt B k)
   \<and> (fst (fst (quizzer_question_add rt B qData d)) = 201 \<longrightarrow>
        (\<exists>x. questions (snd (quizzer_question_add rt B qData d)) = questions d @ [x]
            \<and> questionBankName x = B
            \<and> questionId x = newQuestionId rt B (length (bankQuestions d B))))"
proof -
  have shape: "newQuestionId rt B k
     = toUpperCase rt (take 1 (hd (split chBlank B))
                    @ (if 1 < length (split chBlank B)
                       then take 1 (last (split chBlank B)) else []))
       @ padStart3 (decimal (k + 1))"
    by (simp add: newQuestionId_def Let_def)
  have padded: "length (padStart3 (decimal (k + 1))) = 3" if "k + 1 < 1000"
    using length_decimal_small[OF that] by (simp add: padStart3_def)
  have claimed: "newQuestionId rt B k = claimedQuestionId rt B k"
    if parts: "split chBlank B = bankWords B" and two: "2 \<le> length (bankWords B)"
  proof -
    obtain w ws where ws: "bankWords B = w # ws"
      using two by (cases "bankWords B") auto
    moreover have "ws \<noteq> []" using two ws by auto
    ultimately show ?thesis
      using parts by (simp add: shape claimedQuestionId_def)
  qed
  have added: "\<exists>x. questions (snd (quizzer_question_add rt B qData d)) = questions d @ [x]
            \<and> questionBankName x = B
            \<and> questionId x = newQuestionId rt B (length (bankQuestions d B))"
    if "fst (fst (quizzer_question_add rt B qData d)) = 201"
    using that
    by (auto simp: quizzer_question_add_def Let_def split: option.splits if_splits)
  show ?thesis using shape padded claimed added by blast
qed

lemma replicate_two: "replicate 2 x = [x, x]"
  by (simp add: numeral_2_eq_2)

lemma demo_identifiers:
  "newQuestionId rt (lit ''Python Scripting'') 0 = lit ''PS001''"
  "newQuestionId rt (lit ''Go Backend'') 12 = lit ''GB013''"
  "newQuestionId rt (lit ''Python'') 0 = lit ''P001''"
  "claimedQuestionId rt (lit ''Python'') 0 = lit ''PP001''"
  by (simp_all add: newQuestionId_def claimedQuestionId_def bankWords_def Let_def toUpperCase_def
      toUpperUnits_def padStart3_def decimal.simps[of "Suc 0"] decimal.simps[of 13] replicate_two
      lit_def)

theorem new_question_identifier_witness:
  "(0::nat) + 1 < 1000
   \<and> length (padStart3 (decimal (0 + 1))) = 3
   \<and> split chBlank (lit ''Python Scripting'') = bankWords (lit ''Python Scripting'')
   \<and> 2 \<le> length (bankWords (lit ''Python Scripting''))
   \<and> newQuestionId demoRuntime (lit ''Python Scripting'') 0
        = claimedQuestionId demoRuntime (lit ''Python Scripting'') 0
   \<and> newQuestionId demoRuntime (lit ''Python Scripting'') 0 = lit ''PS001''
   \<and> fst (fst (quizzer_question_add demoRuntime (lit ''Go Backend'') demoEdit demoDb)) = 201
   \<and> (\<exists>x. questions (snd (quizzer_question_add demoRuntime (lit ''Go Backend'') demoEdit demoDb))
             = questions demoDb @ [x]
          \<and> questionBankName x = lit ''Go Backend''
          \<and> questionId x = lit ''GB013'')"
proof -
  have h1: "(0::nat) + 1 < 1000" by simp
  have h2: "split chBlank (lit ''Python Scripting'') = bankWords (lit ''Python Scripting'')"
    by (simp add: bankWords_def lit_def)
  have h3: "2 \<le> length (bankWords (lit ''Python Scripting''))"
    by (simp add: bankWords_def lit_def)
  have count: "length (bankQuestions demoDb (lit ''Go Backend'')) = 12"
    by (simp add: bankQuestions_def demo_defs)
  have h4: "fst (fst (quizzer_question_add demoRuntime (lit ''Go Backend'') demoEdit demoDb)) = 201"
    unfolding quizzer_question_add_def Let_def count demo_identifiers by (simp add: demo_defs)
  have v1: "newQuestionId demoRuntime (lit ''Python Scripting'') 0 = lit ''PS001''"
    by (rule demo_identifiers)
  have v2: "newQuestionId demoRuntime (lit ''Go Backend'') (length (bankQuestions demoDb (lit ''Go Backend'')))
              = lit ''GB013''"
    by (simp only: count demo_identifiers)
  note python = new_question_identifier[where B = "lit ''Python Scripting''" and k = 0
      and rt = demoRuntime]
  note go = new_question_identifier[where B = "lit ''Go Backend''" and qData = demoEdit
      and d = demoDb and rt = demoRuntime]
  from python h1 h2 h3
  have "length (padStart3 (decimal (0 + 1))) = 3"
    and "newQuestionId demoRuntime (lit ''Python Scripting'') 0
           = claimedQuestionId demoRuntime (lit ''Python Scripting'') 0"
    by blast+
  moreover from go h4
  have "\<exists>x. questions (snd (quizzer_question_add demoRuntime (lit ''Go Backend'') demoEdit demoDb))
             = questions demoDb @ [x]
          \<and> questionBankName x = lit ''Go Backend''
          \<and> questionId x = lit ''GB013''"
    unfolding v2 by blast
  ultimately show ?thesis using h1 h2 h3 h4 v1 by blast
qed

text \<open>
  C9 as worded fails for a one-word bank name: the handler gives one letter, the
  specification's wording gives the first letter twice.
\<close>

theorem one_word_bank_identifier:
  "newQuestionId demoRuntime (lit ''Python'') 0 = lit ''P001''
   \<and> claimedQuestionId demoRuntime (lit ''Python'') 0 = lit ''PP001''"
  by (simp add: demo_identifiers)



lemma length_indexLoop [simp]: "length (indexLoop js i a) = length a"
  by (induction js i a rule: indexLoop.induct) simp_all












end
